theory Spec2Isabelle
  imports Main "HOL-Library.Word"
begin

section \<open>Results of code that can panic\<close>

text \<open>
  A Go function either panics or returns. \<open>Panic\<close> carries the panic's message,
  \<open>Ret\<close> the returned value (for a method that mutates its receiver, the new
  receiver is part of the returned value).
\<close>

datatype 'a res = Panic string | Ret 'a

definition bnd :: "'a res \<Rightarrow> ('a \<Rightarrow> 'b res) \<Rightarrow> 'b res" where
  "bnd m f = (case m of Panic msg \<Rightarrow> Panic msg | Ret x \<Rightarrow> f x)"

section \<open>cluster/context.go: the endpoint carried by a context\<close>

text \<open>
  An implementation of the interface \<open>Endpoint\<close> is a value with an \<open>Address\<close>;
  a value of the interface type is \<open>None\<close> (the nil interface) or \<open>Some\<close>
  implementation. A \<open>context.Context\<close> is a chain of wrappers over
  \<open>context.Background()\<close>: \<open>context.WithValue\<close> adds a key and a value,
  the cancellation and deadline wrappers add none. The key type \<open>ctxEndpointKey\<close> is
  private to the package, every other key is an \<open>OtherKey\<close>. A stored value is an
  \<open>interface{}\<close>: nil, an endpoint, or something that is not an endpoint.
\<close>

datatype endpoint_impl = EndpointImpl (impl_id: nat) (Address: string)

datatype ctx_key = ctxEndpointKey | OtherKey nat

datatype ctx_any = AnyNil | AnyEndpoint endpoint_impl | AnyOther nat

datatype Context = Background | WithValue Context ctx_key ctx_any | WithCancel Context

text \<open>\<open>ctx.Value(key)\<close>: the value of the nearest wrapper with that key, nil if none.\<close>

fun ctx_Value :: "Context \<Rightarrow> ctx_key \<Rightarrow> ctx_any" where
  "ctx_Value Background k = AnyNil"
| "ctx_Value (WithValue parent k' x) k = (if k = k' then x else ctx_Value parent k)"
| "ctx_Value (WithCancel parent) k = ctx_Value parent k"

text \<open>The conversion of an \<open>Endpoint\<close> interface value to \<open>interface{}\<close>.\<close>

definition endpoint_to_any :: "endpoint_impl option \<Rightarrow> ctx_any" where
  "endpoint_to_any e = (case e of None \<Rightarrow> AnyNil | Some x \<Rightarrow> AnyEndpoint x)"

definition WithEndpoint :: "Context \<Rightarrow> endpoint_impl option \<Rightarrow> Context" where
  "WithEndpoint ctx endpoint = WithValue ctx ctxEndpointKey (endpoint_to_any endpoint)"

text \<open>
  \<open>ContextEndpoint\<close>: the type assertion \<open>.(Endpoint)\<close> succeeds exactly on a
  stored value that implements \<open>Endpoint\<close>.
\<close>

definition ContextEndpoint :: "Context \<Rightarrow> endpoint_impl option \<times> bool" where
  "ContextEndpoint ctx =
     (case ctx_Value ctx ctxEndpointKey of
        AnyEndpoint e \<Rightarrow> (Some e, True)
      | _ \<Rightarrow> (None, False))"

text \<open>A context some wrapper of which carries the key \<open>ctxEndpointKey\<close>.\<close>

fun endpoint_attached :: "Context \<Rightarrow> bool" where
  "endpoint_attached Background = False"
| "endpoint_attached (WithValue parent k x) = (k = ctxEndpointKey \<or> endpoint_attached parent)"
| "endpoint_attached (WithCancel parent) = endpoint_attached parent"

section \<open>coordiantion.go: the lazily created coordination client\<close>

text \<open>
  The internal client is an external collaborator: \<open>internal.New(db)\<close> and
  \<open>client.Close(ctx)\<close> are parameters. The field \<open>client_calls\<close> is a ghost log
  of every call made to the internal package, so that "the underlying client was not
  invoked" can be stated. The mutex is not modelled (one caller at a time).
\<close>

datatype internal_call = CallNew nat | CallClose nat

record lazyCoordination =
  db :: nat
  client :: "nat option"
  client_calls :: "internal_call list"

definition init :: "(nat \<Rightarrow> nat) \<Rightarrow> lazyCoordination \<Rightarrow> lazyCoordination" where
  "init internal_New c =
     (if client c = None
      then c\<lparr>client := Some (internal_New (db c)),
             client_calls := client_calls c @ [CallNew (db c)]\<rparr>
      else c)"

definition Close ::
  "(nat \<Rightarrow> Context \<Rightarrow> string option) \<Rightarrow> Context \<Rightarrow> lazyCoordination
     \<Rightarrow> lazyCoordination \<times> string option" where
  "Close client_Close ctx c =
     (case client c of
        None \<Rightarrow> (c, None)
      | Some cl \<Rightarrow>
          (c\<lparr>client := None, client_calls := client_calls c @ [CallClose cl]\<rparr>,
           client_Close cl ctx))"

section \<open>credentials: the composite provider\<close>

datatype cred_error = ErrCredentialsNoCredentials | CredError string

datatype Credentials =
    Func "Context \<Rightarrow> string \<times> cred_error option"
  | AccessTokenCredentials string string
  | anonymousCredentials string
  | multiCredentials "Credentials list"

text \<open>
  \<open>Token\<close> of each provider, and the loop of \<open>multiCredentials.Token\<close>:
  \<open>multi_loop cs ctx token err n\<close> runs the loop on the remaining providers \<open>cs\<close>
  with the current values of the named results \<open>token\<close> and \<open>err\<close>; its empty
  case is the code after the loop. The counter \<open>n\<close> is a ghost: the number of
  providers whose \<open>Token\<close> has been called.
\<close>

fun Token :: "Credentials \<Rightarrow> Context \<Rightarrow> string \<times> cred_error option"
  and multi_loop ::
    "Credentials list \<Rightarrow> Context \<Rightarrow> string \<Rightarrow> cred_error option \<Rightarrow> nat
       \<Rightarrow> (string \<times> cred_error option) \<times> nat" where
  "Token (Func f) ctx = f ctx"
| "Token (AccessTokenCredentials tok src) ctx = (tok, None)"
| "Token (anonymousCredentials src) ctx = ([], None)"
| "Token (multiCredentials cs) ctx = fst (multi_loop cs ctx [] None 0)"
| "multi_loop [] ctx token err n =
     ((token, if err = None then Some ErrCredentialsNoCredentials else err), n)"
| "multi_loop (c # cs) ctx token err n =
     (case Token c ctx of
        (token', None) \<Rightarrow> ((token', None), Suc n)
      | (token', Some e) \<Rightarrow> multi_loop cs ctx token' (Some e) (Suc n))"

text \<open>The number of providers a call of \<open>multiCredentials.Token\<close> consults.\<close>

definition consulted :: "Credentials list \<Rightarrow> Context \<Rightarrow> nat" where
  "consulted cs ctx = snd (multi_loop cs ctx [] None 0)"

text \<open>The constructor: composites among the arguments are flattened.\<close>

definition MultiCredentials :: "Credentials list \<Rightarrow> Credentials" where
  "MultiCredentials cs =
     multiCredentials
       (concat (map (\<lambda>c. case c of multiCredentials m \<Rightarrow> m | _ \<Rightarrow> [c]) cs))"

text \<open>The providers of a composite, and whether a provider's \<open>Token\<close> fails.\<close>

definition providers :: "Credentials \<Rightarrow> Credentials list" where
  "providers m = (case m of multiCredentials cs \<Rightarrow> cs | _ \<Rightarrow> [])"

definition token_fails :: "Context \<Rightarrow> Credentials \<Rightarrow> bool" where
  "token_fails ctx c = (snd (Token c ctx) \<noteq> None)"

text \<open>
  What one argument of the constructor contributes to the composite, and the argument
  that contributes nothing: a composite with no provider.
\<close>

definition underlying :: "Credentials \<Rightarrow> Credentials list" where
  "underlying c = (case c of multiCredentials m \<Rightarrow> m | _ \<Rightarrow> [c])"

definition empty_composite :: "Credentials \<Rightarrow> bool" where
  "empty_composite c = (case c of multiCredentials [] \<Rightarrow> True | _ \<Rightarrow> False)"

section \<open>internal/table/scanner/scanner.go: the wire data\<close>

text \<open>
  The generated protocol messages are outside the repository; the model keeps the fields
  the scanner reads. A pointer to a message is an \<open>option\<close> (\<open>None\<close> is nil), a
  \<open>oneof\<close> field is an \<open>option\<close> of its alternatives (\<open>None\<close> when unset).
  A 32-bit float is kept as its 32 bits and a 64-bit float as its 64 bits: the scanner
  only copies them. A Go string and a byte slice are both lists of bytes (\<open>string\<close>);
  a nil slice is the empty list.
\<close>

datatype type_id =
    PRIMITIVE_TYPE_ID_UNSPECIFIED | BOOL | INT8 | UINT8 | INT16 | UINT16 | INT32 | UINT32
  | INT64 | UINT64 | FLOAT | DOUBLE | DATE | DATETIME | TIMESTAMP | INTERVAL | TZ_DATE
  | TZ_DATETIME | TZ_TIMESTAMP | STRING | UTF8 | YSON | JSON | UUID | JSON_DOCUMENT
  | DYNUMBER

datatype ydb_type = YType (type_oneof: "type_kind option")
  and type_kind =
    Type_TypeId type_id
  | Type_DecimalType "32 word" "32 word"
  | Type_OptionalType "ydb_type option"
  | Type_Other nat

datatype ydb_value =
    YValue (value_oneof: "value_kind option") (Items: "ydb_value option list")
      (High_128: "64 word")
  and value_kind =
    Value_BoolValue bool
  | Value_Int32Value "32 word"
  | Value_Uint32Value "32 word"
  | Value_Int64Value "64 word"
  | Value_Uint64Value "64 word"
  | Value_FloatValue "32 word"
  | Value_DoubleValue "64 word"
  | Value_BytesValue string
  | Value_TextValue string
  | Value_NullFlagValue
  | Value_NestedValue "ydb_value option"
  | Value_Low_128 "64 word"

datatype column = Column (Name: string) (Type: "ydb_type option")

record ResultSet =
  Columns :: "column list"
  Rows :: "ydb_value option list"
  rs_Truncated :: bool

section \<open>The caller's variables\<close>

text \<open>
  \<open>time.Time\<close> values are kept symbolic: the zero time, the results of the
  \<open>timeutil\<close> conversions (which are outside the sources), and the results of the
  time-zone parsers, which are parameters (\<open>timeutil\<close> below).
\<close>

datatype gtime =
    Time_zero
  | UnmarshalDate "32 word"
  | UnmarshalDatetime "32 word"
  | UnmarshalTimestamp "64 word"
  | Time_parsed nat

text \<open>
  A value of a Go variable. \<open>GInt\<close> and \<open>GUint\<close> are the 64-bit \<open>int\<close> and
  \<open>uint\<close>. \<open>GIface\<close> is an \<open>interface{}\<close> (\<open>None\<close> is nil). \<open>GValue\<close> is
  the \<open>types.Value\<close> that \<open>value.FromYDB\<close> (outside the sources) builds from a type
  and a value. \<open>GPtr\<close> is a pointer variable: nil, or pointing to a cell that holds
  the given value and that nothing else points to (the scanner only stores pointers to
  variables it has just allocated). \<open>GZero\<close> is the zero value of a type the model
  does not detail.
\<close>

datatype gval =
    GBool bool
  | GInt8 "8 word" | GInt16 "16 word" | GInt32 "32 word" | GInt "64 word" | GInt64 "64 word"
  | GUint8 "8 word" | GUint16 "16 word" | GUint32 "32 word" | GUint "64 word"
  | GUint64 "64 word"
  | GFloat32 "32 word" | GFloat64 "64 word"
  | GTime gtime
  | GDuration "64 word"
  | GString string
  | GBytes string
  | GArray string
  | GIface "gval option"
  | GValue "ydb_type option" "ydb_value option"
  | GDecimal string "32 word" "32 word"
  | GPtr "gval option"
  | GZero

type_synonym store = "nat \<Rightarrow> gval option"

text \<open>A write through a pointer: a nil pointer panics.\<close>

definition assign :: "nat option \<Rightarrow> gval \<Rightarrow> store \<Rightarrow> store res" where
  "assign p x st =
     (case p of
        None \<Rightarrow> Panic ''invalid memory address or nil pointer dereference''
      | Some a \<Rightarrow> Ret (st(a \<mapsto> x)))"

datatype user_error = UserError string

record timeutil =
  UnmarshalTzDate :: "string \<Rightarrow> gtime \<times> user_error option"
  UnmarshalTzDatetime :: "string \<Rightarrow> gtime \<times> user_error option"
  UnmarshalTzTimestamp :: "string \<Rightarrow> gtime \<times> user_error option"

section \<open>The scanner's errors, stack and state\<close>

datatype go_type =
    T_bool | T_int8 | T_int16 | T_int32 | T_int | T_int64
  | T_uint8 | T_uint16 | T_uint32 | T_uint | T_uint64
  | T_float32 | T_float64 | T_Time | T_Duration | T_string | T_bytes | T_array16
  | T_interface | T_Value | T_Decimal

text \<open>The dynamic type of a destination, as the type switches and \<open>reflect\<close> see it.\<close>

datatype go_dst_type =
    TyPtr go_type
  | TyPtrPtr go_type
  | TySqlScanner
  | TyYdbScanner
  | TyPtrByteArray nat
  | TyPtrPtrByteArray nat
  | TyPtrPtrOther
  | TyByteArray nat
  | TyNil
  | TyOther

text \<open>
  An error built by \<open>fmt.Errorf\<close>: the format and its arguments. The arguments that
  functions outside the sources would render (\<open>nameIface\<close>, \<open>value.TypeFromYDB\<close>,
  \<open>%T\<close>) are kept as the data they are computed from.
\<close>

datatype earg =
    ArgString string
  | ArgInt int
  | ArgError user_error
  | ArgNil
  | ArgType "ydb_type option"
  | ArgTypeKind "type_kind option"
  | ArgValueKind "value_kind option"
  | ArgWant string
  | ArgTypeId type_id
  | ArgGoType go_dst_type

datatype scan_error = Errorf string "earg list"

record item =
  item_name :: string
  item_i :: int
  item_t :: "ydb_type option"
  item_v :: "ydb_value option"

record scanStack =
  stack_v :: "item list"
  stack_p :: "8 word"
  scanItem :: item

record scanner =
  set' :: "ResultSet option"
  row :: "ydb_value option"
  stack :: scanStack
  nextRow :: nat
  nextItem :: nat
  columnIndexes :: "nat list option"
  defaultValueForOptional :: bool
  err :: "scan_error option"

text \<open>
  A destination of \<open>Scan\<close>: the dynamic type of the \<open>interface{}\<close> argument with
  its pointer (\<open>None\<close> is a nil pointer, \<open>Some a\<close> points to the caller's variable
  \<open>a\<close>).
  \<^item> \<open>Ptr T p\<close> is a \<open>*T\<close> and \<open>PtrPtr T p\<close> a \<open>**T\<close>, for the types the type
    switches name.
  \<^item> \<open>SqlScanner f\<close> implements \<open>sql.Scanner\<close>: \<open>f\<close> is its \<open>Scan\<close>.
  \<^item> \<open>YdbScanner f\<close> implements \<open>types.Scanner\<close>. Its \<open>UnmarshalYDB\<close> gets the
    raw converter, which is outside the sources; \<open>f\<close> is a parameter that gives, from
    the scan stack at the call, the stack the call leaves, the error it records in the
    scanner through the converter (if any) and the error it returns.
  \<^item> \<open>PtrByteArray n p\<close> is a pointer to an array of \<open>n\<close> bytes other than
    \<open>*[16]byte\<close>, \<open>PtrPtrByteArray n p\<close> a pointer to a pointer to one other than
    \<open>**[16]byte\<close>, \<open>PtrPtrOther p\<close> a pointer to a pointer of any other type,
    \<open>ByteArrayValue n\<close> an array of bytes passed by value, \<open>NilInterface\<close> the nil
    interface, \<open>OtherDst\<close> anything else (\<open>reflect\<close> sees neither a pointer to a
    pointer nor an array of bytes).
\<close>

datatype dst =
    Ptr go_type "nat option"
  | PtrPtr go_type "nat option"
  | SqlScanner "gval option \<Rightarrow> user_error option"
  | YdbScanner "scanStack \<Rightarrow> scanStack \<times> scan_error option \<times> user_error option"
  | PtrByteArray nat "nat option"
  | PtrPtrByteArray nat "nat option"
  | PtrPtrOther "nat option"
  | ByteArrayValue nat
  | NilInterface
  | OtherDst

fun TypeOf :: "dst \<Rightarrow> go_dst_type" where
  "TypeOf (Ptr T p) = TyPtr T"
| "TypeOf (PtrPtr T p) = TyPtrPtr T"
| "TypeOf (SqlScanner f) = TySqlScanner"
| "TypeOf (YdbScanner f) = TyYdbScanner"
| "TypeOf (PtrByteArray n p) = TyPtrByteArray n"
| "TypeOf (PtrPtrByteArray n p) = TyPtrPtrByteArray n"
| "TypeOf (PtrPtrOther p) = TyPtrPtrOther"
| "TypeOf (ByteArrayValue n) = TyByteArray n"
| "TypeOf NilInterface = TyNil"
| "TypeOf OtherDst = TyOther"

section \<open>scanStack\<close>

definition emptyItem :: item where
  "emptyItem = \<lparr>item_name = [], item_i = 0, item_t = None, item_v = None\<rparr>"

definition isEmpty :: "item \<Rightarrow> bool" where
  "isEmpty x = (item_v x = None)"

definition stack_reset :: "scanStack \<Rightarrow> scanStack" where
  "stack_reset st = st\<lparr>scanItem := emptyItem, stack_p := 0\<rparr>"

text \<open>\<open>current\<close>: the read \<open>s.v[s.p]\<close> panics out of range.\<close>

definition current :: "scanStack \<Rightarrow> item res" where
  "current st =
     (if \<not> isEmpty (scanItem st) then Ret (scanItem st)
      else if stack_v st = [] then Ret emptyItem
      else if 0 \<le> sint (stack_p st) \<and> nat (sint (stack_p st)) < length (stack_v st)
      then Ret (stack_v st ! nat (sint (stack_p st)))
      else Panic ''index out of range'')"

definition currentValue :: "scanStack \<Rightarrow> value_kind option res" where
  "currentValue st =
     bnd (current st) (\<lambda>c. case item_v c of
        Some x \<Rightarrow> Ret (value_oneof x)
      | None \<Rightarrow> Ret None)"

definition currentType :: "scanStack \<Rightarrow> type_kind option res" where
  "currentType st =
     bnd (current st) (\<lambda>c. case item_t c of
        Some x \<Rightarrow> Ret (type_oneof x)
      | None \<Rightarrow> Ret None)"

definition isOptional :: "ydb_type option \<Rightarrow> bool" where
  "isOptional typ =
     (case typ of
        Some (YType (Some (Type_OptionalType x))) \<Rightarrow> True
      | _ \<Rightarrow> False)"

text \<open>The generated getter \<open>GetTypeId\<close>, which accepts a nil receiver.\<close>

definition GetTypeId :: "ydb_type option \<Rightarrow> type_id" where
  "GetTypeId typ =
     (case typ of
        Some (YType (Some (Type_TypeId x))) \<Rightarrow> x
      | _ \<Rightarrow> PRIMITIVE_TYPE_ID_UNSPECIFIED)"

section \<open>Recording errors\<close>

definition errorf :: "scanner \<Rightarrow> string \<Rightarrow> earg list \<Rightarrow> scanner" where
  "errorf s f args = (if err s \<noteq> None then s else s\<lparr>err := Some (Errorf f args)\<rparr>)"

definition Err :: "scanner \<Rightarrow> scan_error option" where
  "Err s = err s"

definition path :: "scanner \<Rightarrow> string res" where
  "path s = bnd (current (stack s)) (\<lambda>x. Ret (item_name x))"

definition getType :: "scanner \<Rightarrow> earg res" where
  "getType s =
     bnd (current (stack s)) (\<lambda>x. if isEmpty x then Ret ArgNil else Ret (ArgType (item_t x)))"

definition typeError :: "scanner \<Rightarrow> type_kind option \<Rightarrow> string \<Rightarrow> scanner res" where
  "typeError s act exp =
     bnd (path s) (\<lambda>p. bnd (getType s) (\<lambda>t.
       Ret (errorf s ''unexpected types during scan at %q %s: %s; want %s''
              [ArgString p, t, ArgTypeKind act, ArgWant exp])))"

definition valueTypeError :: "scanner \<Rightarrow> value_kind option \<Rightarrow> string \<Rightarrow> scanner res" where
  "valueTypeError s act exp =
     bnd (path s) (\<lambda>p. bnd (getType s) (\<lambda>t.
       Ret (errorf s ''unexpected value during scan at %q %s: %s; want %s''
              [ArgString p, t, ArgValueKind act, ArgWant exp])))"

definition noValueError :: "scanner \<Rightarrow> scanner res" where
  "noValueError s = bnd (path s) (\<lambda>p. Ret (errorf s ''no value at %q'' [ArgString p]))"

definition noColumnError :: "scanner \<Rightarrow> string \<Rightarrow> scanner" where
  "noColumnError s name = errorf s ''no column %q'' [ArgString name]"

definition overflowError :: "scanner \<Rightarrow> int \<Rightarrow> int \<Rightarrow> scanner" where
  "overflowError s i n =
     errorf s ''overflow error: %d overflows capacity of %t'' [ArgInt i, ArgInt n]"

text \<open>
  The failing branch of a decoder: \<open>s.valueTypeError(s.stack.currentValue(), x)\<close>
  with \<open>x\<close> the nil pointer of the wanted alternative.
\<close>

definition unexpected :: "scanner \<Rightarrow> string \<Rightarrow> scanner res" where
  "unexpected s exp = bnd (currentValue (stack s)) (\<lambda>act. valueTypeError s act exp)"

section \<open>Decoding the current item\<close>

definition bool' :: "scanner \<Rightarrow> (scanner \<times> bool) res" where
  "bool' s =
     bnd (currentValue (stack s)) (\<lambda>x. case x of
        Some (Value_BoolValue b) \<Rightarrow> Ret (s, b)
      | _ \<Rightarrow> bnd (unexpected s ''*Ydb.Value_BoolValue'') (\<lambda>s'. Ret (s', False)))"

definition int32 :: "scanner \<Rightarrow> (scanner \<times> 32 word) res" where
  "int32 s =
     bnd (currentValue (stack s)) (\<lambda>x. case x of
        Some (Value_Int32Value d) \<Rightarrow> Ret (s, d)
      | _ \<Rightarrow> bnd (unexpected s ''*Ydb.Value_Int32Value'') (\<lambda>s'. Ret (s', 0)))"

definition uint32 :: "scanner \<Rightarrow> (scanner \<times> 32 word) res" where
  "uint32 s =
     bnd (currentValue (stack s)) (\<lambda>x. case x of
        Some (Value_Uint32Value d) \<Rightarrow> Ret (s, d)
      | _ \<Rightarrow> bnd (unexpected s ''*Ydb.Value_Uint32Value'') (\<lambda>s'. Ret (s', 0)))"

definition int64 :: "scanner \<Rightarrow> (scanner \<times> 64 word) res" where
  "int64 s =
     bnd (currentValue (stack s)) (\<lambda>x. case x of
        Some (Value_Int64Value d) \<Rightarrow> Ret (s, d)
      | _ \<Rightarrow> bnd (unexpected s ''*Ydb.Value_Int64Value'') (\<lambda>s'. Ret (s', 0)))"

definition uint64 :: "scanner \<Rightarrow> (scanner \<times> 64 word) res" where
  "uint64 s =
     bnd (currentValue (stack s)) (\<lambda>x. case x of
        Some (Value_Uint64Value d) \<Rightarrow> Ret (s, d)
      | _ \<Rightarrow> bnd (unexpected s ''*Ydb.Value_Uint64Value'') (\<lambda>s'. Ret (s', 0)))"

definition float :: "scanner \<Rightarrow> (scanner \<times> 32 word) res" where
  "float s =
     bnd (currentValue (stack s)) (\<lambda>x. case x of
        Some (Value_FloatValue d) \<Rightarrow> Ret (s, d)
      | _ \<Rightarrow> bnd (unexpected s ''*Ydb.Value_FloatValue'') (\<lambda>s'. Ret (s', 0)))"

definition double :: "scanner \<Rightarrow> (scanner \<times> 64 word) res" where
  "double s =
     bnd (currentValue (stack s)) (\<lambda>x. case x of
        Some (Value_DoubleValue d) \<Rightarrow> Ret (s, d)
      | _ \<Rightarrow> bnd (unexpected s ''*Ydb.Value_DoubleValue'') (\<lambda>s'. Ret (s', 0)))"

definition bytes :: "scanner \<Rightarrow> (scanner \<times> string) res" where
  "bytes s =
     bnd (currentValue (stack s)) (\<lambda>x. case x of
        Some (Value_BytesValue d) \<Rightarrow> Ret (s, d)
      | _ \<Rightarrow> bnd (unexpected s ''*Ydb.Value_BytesValue'') (\<lambda>s'. Ret (s', [])))"

definition text' :: "scanner \<Rightarrow> (scanner \<times> string) res" where
  "text' s =
     bnd (currentValue (stack s)) (\<lambda>x. case x of
        Some (Value_TextValue d) \<Rightarrow> Ret (s, d)
      | _ \<Rightarrow> bnd (unexpected s ''*Ydb.Value_TextValue'') (\<lambda>s'. Ret (s', [])))"

definition low128 :: "scanner \<Rightarrow> (scanner \<times> 64 word) res" where
  "low128 s =
     bnd (currentValue (stack s)) (\<lambda>x. case x of
        Some (Value_Low_128 d) \<Rightarrow> Ret (s, d)
      | _ \<Rightarrow> bnd (unexpected s ''*Ydb.Value_Low_128'') (\<lambda>s'. Ret (s', 0)))"

text \<open>The narrowing decoders: the named result \<open>v\<close> is 0 when the range check fails.\<close>

definition int8 :: "scanner \<Rightarrow> (scanner \<times> 8 word) res" where
  "int8 s =
     bnd (int32 s) (\<lambda>(s1, d).
       if sint d < - 128 \<or> 127 < sint d then Ret (overflowError s1 (sint d) 0, 0)
       else Ret (s1, scast d))"

definition uint8 :: "scanner \<Rightarrow> (scanner \<times> 8 word) res" where
  "uint8 s =
     bnd (uint32 s) (\<lambda>(s1, d).
       if uint d > 255 then Ret (overflowError s1 (uint d) 0, 0)
       else Ret (s1, ucast d))"

definition int16 :: "scanner \<Rightarrow> (scanner \<times> 16 word) res" where
  "int16 s =
     bnd (int32 s) (\<lambda>(s1, d).
       if sint d < - 32768 \<or> 32767 < sint d then Ret (overflowError s1 (sint d) 0, 0)
       else Ret (s1, scast d))"

definition uint16 :: "scanner \<Rightarrow> (scanner \<times> 16 word) res" where
  "uint16 s =
     bnd (uint32 s) (\<lambda>(s1, d).
       if uint d > 65535 then Ret (overflowError s1 (uint d) 0, 0)
       else Ret (s1, ucast d))"

text \<open>
  Modelled from the spec: \<open>value.BigEndianUint128\<close> is outside the sources; the spec
  has the 16-byte array composed big-endian from the high and the low 64 bits.
\<close>

definition be_bytes :: "64 word \<Rightarrow> string" where
  "be_bytes w = map (\<lambda>k. char_of (unat (drop_bit (8 * k) w) mod 256)) (rev [0 ..< 8])"

definition BigEndianUint128 :: "64 word \<Rightarrow> 64 word \<Rightarrow> string" where
  "BigEndianUint128 hi lo = be_bytes hi @ be_bytes lo"

definition zero_bytes :: "nat \<Rightarrow> string" where
  "zero_bytes n = replicate n (CHR 0x00)"

definition uint128 :: "scanner \<Rightarrow> (scanner \<times> string) res" where
  "uint128 s =
     bnd (current (stack s)) (\<lambda>c. case item_v c of
        None \<Rightarrow> Ret (errorf s ''TODO'' [], zero_bytes 16)
      | Some cv \<Rightarrow> bnd (low128 s) (\<lambda>(s1, lo). Ret (s1, BigEndianUint128 (High_128 cv) lo)))"

definition isCurrentTypeOptional :: "scanner \<Rightarrow> bool res" where
  "isCurrentTypeOptional s = bnd (current (stack s)) (\<lambda>c. Ret (isOptional (item_t c)))"

definition isNull :: "scanner \<Rightarrow> bool res" where
  "isNull s = bnd (currentValue (stack s)) (\<lambda>x. Ret (x = Some Value_NullFlagValue))"

definition unwrapValue :: "scanner \<Rightarrow> (scanner \<times> ydb_value option) res" where
  "unwrapValue s =
     bnd (currentValue (stack s)) (\<lambda>x. case x of
        Some (Value_NestedValue nv) \<Rightarrow> Ret (s, nv)
      | _ \<Rightarrow> bnd (unexpected s ''*Ydb.Value_NestedValue'') (\<lambda>s'. Ret (s', None)))"

definition set_scanItem_v :: "scanner \<Rightarrow> ydb_value option \<Rightarrow> scanner" where
  "set_scanItem_v s x = s\<lparr>stack := (stack s)\<lparr>scanItem := (scanItem (stack s))\<lparr>item_v := x\<rparr>\<rparr>\<rparr>"

definition set_scanItem_t :: "scanner \<Rightarrow> ydb_type option \<Rightarrow> scanner" where
  "set_scanItem_t s x = s\<lparr>stack := (stack s)\<lparr>scanItem := (scanItem (stack s))\<lparr>item_t := x\<rparr>\<rparr>\<rparr>"

definition unwrap :: "scanner \<Rightarrow> scanner res" where
  "unwrap s =
     (if err s \<noteq> None then Ret s
      else bnd (currentType (stack s)) (\<lambda>t. case t of
          Some (Type_OptionalType itm) \<Rightarrow>
            bnd (if isOptional itm
                 then bnd (unwrapValue s) (\<lambda>(s1, x). Ret (set_scanItem_v s1 x))
                 else Ret s)
              (\<lambda>s2. Ret (set_scanItem_t s2 itm))
        | _ \<Rightarrow> Ret s))"

text \<open>\<open>assertTypeDecimal\<close>: the read \<open>typ.Type\<close> panics on a nil \<open>typ\<close>.\<close>

definition assertTypeDecimal ::
  "scanner \<Rightarrow> ydb_type option \<Rightarrow> (scanner \<times> (32 word \<times> 32 word) option) res" where
  "assertTypeDecimal s typ =
     (case typ of
        None \<Rightarrow> Panic ''invalid memory address or nil pointer dereference''
      | Some ty \<Rightarrow>
          (case type_oneof ty of
             Some (Type_DecimalType precision scale) \<Rightarrow> Ret (s, Some (precision, scale))
           | x \<Rightarrow> bnd (typeError s x ''*Ydb.Type_DecimalType'') (\<lambda>s'. Ret (s', None))))"

definition zero_Decimal :: gval where
  "zero_Decimal = GDecimal (zero_bytes 16) 0 0"

definition unwrapDecimal :: "scanner \<Rightarrow> (scanner \<times> gval) res" where
  "unwrapDecimal s =
     (if err s \<noteq> None then Ret (s, zero_Decimal)
      else bnd (unwrap s) (\<lambda>s1.
           bnd (current (stack s1)) (\<lambda>c.
           bnd (assertTypeDecimal s1 (item_t c)) (\<lambda>(s2, d). case d of
              None \<Rightarrow> Ret (s2, zero_Decimal)
            | Some (precision, scale) \<Rightarrow>
                bnd (uint128 s2) (\<lambda>(s3, b). Ret (s3, GDecimal b precision scale))))))"

text \<open>\<open>value\<close>: \<open>value.FromYDB\<close> applied to the current item's type and value.\<close>

definition value' :: "scanner \<Rightarrow> gval res" where
  "value' s = bnd (current (stack s)) (\<lambda>x. Ret (GValue (item_t x) (item_v x)))"

text \<open>
  Modelled from the spec: \<open>timeutil.UnmarshalInterval\<close> is outside the sources; the
  spec has an interval as signed microseconds, and a \<open>time.Duration\<close> counts
  nanoseconds in 64 bits.
\<close>

definition UnmarshalInterval :: "64 word \<Rightarrow> 64 word" where
  "UnmarshalInterval n = n * 1000"

text \<open>
  The time-zone forms: parse the text, record the parser's error if any, and yield what
  the parser returned.
\<close>

definition parse_tz ::
  "(string \<Rightarrow> gtime \<times> user_error option) \<Rightarrow> scanner \<Rightarrow> (scanner \<times> gtime) res" where
  "parse_tz parse s =
     bnd (text' s) (\<lambda>(s1, txt). case parse txt of
        (src, None) \<Rightarrow> Ret (s1, src)
      | (src, Some e) \<Rightarrow> Ret (errorf s1 ''scan row failed: %w'' [ArgError e], src))"

text \<open>
  Modelled from the spec: \<open>value.TypeFromYDB\<close> is outside the sources; the type it
  returns is a \<open>value.PrimitiveType\<close> exactly for a primitive type id, which
  \<open>any\<close> then switches on.
\<close>

definition primitive :: "ydb_type option \<Rightarrow> type_id option" where
  "primitive typ =
     (case typ of
        Some (YType (Some (Type_TypeId x))) \<Rightarrow> Some x
      | _ \<Rightarrow> None)"

definition any_primitive :: "timeutil \<Rightarrow> scanner \<Rightarrow> type_id \<Rightarrow> (scanner \<times> gval option) res" where
  "any_primitive tu s p =
     (case p of
        BOOL \<Rightarrow> bnd (bool' s) (\<lambda>(s1, x). Ret (s1, Some (GBool x)))
      | INT8 \<Rightarrow> bnd (int8 s) (\<lambda>(s1, x). Ret (s1, Some (GInt8 x)))
      | UINT8 \<Rightarrow> bnd (uint8 s) (\<lambda>(s1, x). Ret (s1, Some (GUint8 x)))
      | INT16 \<Rightarrow> bnd (int16 s) (\<lambda>(s1, x). Ret (s1, Some (GInt16 x)))
      | UINT16 \<Rightarrow> bnd (uint16 s) (\<lambda>(s1, x). Ret (s1, Some (GUint16 x)))
      | INT32 \<Rightarrow> bnd (int32 s) (\<lambda>(s1, x). Ret (s1, Some (GInt32 x)))
      | FLOAT \<Rightarrow> bnd (float s) (\<lambda>(s1, x). Ret (s1, Some (GFloat32 x)))
      | DOUBLE \<Rightarrow> bnd (double s) (\<lambda>(s1, x). Ret (s1, Some (GFloat64 x)))
      | STRING \<Rightarrow> bnd (bytes s) (\<lambda>(s1, x). Ret (s1, Some (GBytes x)))
      | UUID \<Rightarrow> bnd (uint128 s) (\<lambda>(s1, x). Ret (s1, Some (GArray x)))
      | UINT32 \<Rightarrow> bnd (uint32 s) (\<lambda>(s1, x). Ret (s1, Some (GUint32 x)))
      | DATE \<Rightarrow> bnd (uint32 s) (\<lambda>(s1, x). Ret (s1, Some (GTime (UnmarshalDate x))))
      | DATETIME \<Rightarrow> bnd (uint32 s) (\<lambda>(s1, x). Ret (s1, Some (GTime (UnmarshalDatetime x))))
      | UINT64 \<Rightarrow> bnd (uint64 s) (\<lambda>(s1, x). Ret (s1, Some (GUint64 x)))
      | TIMESTAMP \<Rightarrow> bnd (uint64 s) (\<lambda>(s1, x). Ret (s1, Some (GTime (UnmarshalTimestamp x))))
      | INT64 \<Rightarrow> bnd (int64 s) (\<lambda>(s1, x). Ret (s1, Some (GInt64 x)))
      | INTERVAL \<Rightarrow> bnd (int64 s) (\<lambda>(s1, x). Ret (s1, Some (GDuration (UnmarshalInterval x))))
      | TZ_DATE \<Rightarrow>
          bnd (parse_tz (UnmarshalTzDate tu) s) (\<lambda>(s1, x). Ret (s1, Some (GTime x)))
      | TZ_DATETIME \<Rightarrow>
          bnd (parse_tz (UnmarshalTzDatetime tu) s) (\<lambda>(s1, x). Ret (s1, Some (GTime x)))
      | TZ_TIMESTAMP \<Rightarrow>
          bnd (parse_tz (UnmarshalTzTimestamp tu) s) (\<lambda>(s1, x). Ret (s1, Some (GTime x)))
      | UTF8 \<Rightarrow> bnd (text' s) (\<lambda>(s1, x). Ret (s1, Some (GString x)))
      | DYNUMBER \<Rightarrow> bnd (text' s) (\<lambda>(s1, x). Ret (s1, Some (GString x)))
      | YSON \<Rightarrow> bnd (text' s) (\<lambda>(s1, x). Ret (s1, Some (GBytes x)))
      | JSON \<Rightarrow> bnd (text' s) (\<lambda>(s1, x). Ret (s1, Some (GBytes x)))
      | JSON_DOCUMENT \<Rightarrow> bnd (text' s) (\<lambda>(s1, x). Ret (s1, Some (GBytes x)))
      | PRIMITIVE_TYPE_ID_UNSPECIFIED \<Rightarrow>
          Ret (errorf s ''ydb/table: unknown primitive types'' [], None))"

definition any :: "timeutil \<Rightarrow> scanner \<Rightarrow> (scanner \<times> gval option) res" where
  "any tu s =
     bnd (current (stack s)) (\<lambda>x.
       if err s \<noteq> None \<or> isEmpty x then Ret (s, None)
       else bnd (isNull s) (\<lambda>null.
         if null then Ret (s, None)
         else bnd (isCurrentTypeOptional s) (\<lambda>opt.
           bnd (if opt then bnd (unwrap s) (\<lambda>s1. bnd (current (stack s1)) (\<lambda>x1. Ret (s1, x1)))
                else Ret (s, x))
             (\<lambda>(s2, x2). case primitive (item_t x2) of
                None \<Rightarrow> Ret (s2, None)
              | Some p \<Rightarrow> any_primitive tu s2 p))))"

section \<open>Writing one destination\<close>

text \<open>
  \<open>setTime\<close>, \<open>setString\<close> and \<open>setByte\<close> write through the pointer they get only
  in some branches: the model returns the value written, if any, and the caller applies
  it to the pointer it passed.
\<close>

definition setTime :: "timeutil \<Rightarrow> scanner \<Rightarrow> (scanner \<times> gtime option) res" where
  "setTime tu s =
     bnd (current (stack s)) (\<lambda>c. case GetTypeId (item_t c) of
        DATE \<Rightarrow> bnd (uint32 s) (\<lambda>(s1, x). Ret (s1, Some (UnmarshalDate x)))
      | DATETIME \<Rightarrow> bnd (uint32 s) (\<lambda>(s1, x). Ret (s1, Some (UnmarshalDatetime x)))
      | TIMESTAMP \<Rightarrow> bnd (uint64 s) (\<lambda>(s1, x). Ret (s1, Some (UnmarshalTimestamp x)))
      | TZ_DATE \<Rightarrow> bnd (parse_tz (UnmarshalTzDate tu) s) (\<lambda>(s1, x). Ret (s1, Some x))
      | TZ_DATETIME \<Rightarrow> bnd (parse_tz (UnmarshalTzDatetime tu) s) (\<lambda>(s1, x). Ret (s1, Some x))
      | TZ_TIMESTAMP \<Rightarrow> bnd (parse_tz (UnmarshalTzTimestamp tu) s) (\<lambda>(s1, x). Ret (s1, Some x))
      | t \<Rightarrow> Ret (errorf s ''scan row failed: incorrect source types %s'' [ArgTypeId t], None))"

definition setString :: "scanner \<Rightarrow> (scanner \<times> string option) res" where
  "setString s =
     bnd (current (stack s)) (\<lambda>c. case GetTypeId (item_t c) of
        UUID \<Rightarrow> bnd (uint128 s) (\<lambda>(s1, x). Ret (s1, Some x))
      | UTF8 \<Rightarrow> bnd (text' s) (\<lambda>(s1, x). Ret (s1, Some x))
      | DYNUMBER \<Rightarrow> bnd (text' s) (\<lambda>(s1, x). Ret (s1, Some x))
      | YSON \<Rightarrow> bnd (text' s) (\<lambda>(s1, x). Ret (s1, Some x))
      | JSON \<Rightarrow> bnd (text' s) (\<lambda>(s1, x). Ret (s1, Some x))
      | JSON_DOCUMENT \<Rightarrow> bnd (text' s) (\<lambda>(s1, x). Ret (s1, Some x))
      | STRING \<Rightarrow> bnd (bytes s) (\<lambda>(s1, x). Ret (s1, Some x))
      | t \<Rightarrow> Ret (errorf s ''scan row failed: incorrect source types %s'' [ArgTypeId t], None))"

definition setByte :: "scanner \<Rightarrow> (scanner \<times> string option) res" where
  "setByte s =
     bnd (current (stack s)) (\<lambda>c. case GetTypeId (item_t c) of
        UUID \<Rightarrow> bnd (uint128 s) (\<lambda>(s1, x). Ret (s1, Some x))
      | UTF8 \<Rightarrow> bnd (text' s) (\<lambda>(s1, x). Ret (s1, Some x))
      | DYNUMBER \<Rightarrow> bnd (text' s) (\<lambda>(s1, x). Ret (s1, Some x))
      | YSON \<Rightarrow> bnd (text' s) (\<lambda>(s1, x). Ret (s1, Some x))
      | JSON \<Rightarrow> bnd (text' s) (\<lambda>(s1, x). Ret (s1, Some x))
      | JSON_DOCUMENT \<Rightarrow> bnd (text' s) (\<lambda>(s1, x). Ret (s1, Some x))
      | STRING \<Rightarrow> bnd (bytes s) (\<lambda>(s1, x). Ret (s1, Some x))
      | t \<Rightarrow> Ret (errorf s ''scan row failed: incorrect source types %s'' [ArgTypeId t], None))"

text \<open>
  What \<open>reflect\<close> sees of a destination in \<open>trySetByteArray\<close>: nothing it can use
  (\<open>ShNone\<close>: not a pointer to a pointer and not an array of bytes behind at most one
  pointer, or a nil pointer), an array of \<open>n\<close> bytes passed by value, which cannot be
  set, a pointer to the array variable \<open>a\<close> of \<open>n\<close> bytes, or a pointer to the pointer
  variable \<open>a\<close>, whose pointee type is an array of \<open>n\<close> bytes (\<open>Some n\<close>) or any
  other type (\<open>None\<close>).
\<close>

datatype shape = ShNone | ShArrayValue nat | ShPtrArray nat nat | ShPtrPtr "nat option" nat

fun shape_of :: "dst \<Rightarrow> shape" where
  "shape_of (Ptr T p) =
     (case p of
        None \<Rightarrow> ShNone
      | Some a \<Rightarrow> if T = T_array16 then ShPtrArray 16 a else ShNone)"
| "shape_of (PtrPtr T p) =
     (case p of
        None \<Rightarrow> ShNone
      | Some a \<Rightarrow> ShPtrPtr (if T = T_array16 then Some 16 else None) a)"
| "shape_of (SqlScanner f) = ShNone"
| "shape_of (YdbScanner f) = ShNone"
| "shape_of (PtrByteArray n p) = (case p of None \<Rightarrow> ShNone | Some a \<Rightarrow> ShPtrArray n a)"
| "shape_of (PtrPtrByteArray n p) =
     (case p of None \<Rightarrow> ShNone | Some a \<Rightarrow> ShPtrPtr (Some n) a)"
| "shape_of (PtrPtrOther p) = (case p of None \<Rightarrow> ShNone | Some a \<Rightarrow> ShPtrPtr None a)"
| "shape_of (ByteArrayValue n) = ShArrayValue n"
| "shape_of NilInterface = ShNone"
| "shape_of OtherDst = ShNone"

text \<open>
  Where the bytes of the array go: the caller's array variable, the array the caller's
  pointer variable points to, or an array that \<open>reflect\<close> refuses to set.
\<close>

datatype target = Direct nat | Through nat | Unsettable

definition write_array :: "target \<Rightarrow> string \<Rightarrow> store \<Rightarrow> store res" where
  "write_array tgt b st =
     (case tgt of
        Direct a \<Rightarrow> Ret (st(a \<mapsto> GArray b))
      | Through a \<Rightarrow> Ret (st(a \<mapsto> GPtr (Some (GArray b))))
      | Unsettable \<Rightarrow> Panic ''reflect: reflect.Value.Set using unaddressable value'')"

definition set_byte_array ::
  "scanner \<Rightarrow> store \<Rightarrow> nat \<Rightarrow> target \<Rightarrow> bool \<Rightarrow> (scanner \<times> store \<times> bool) res" where
  "set_byte_array s st n tgt def =
     (if def then bnd (write_array tgt (zero_bytes n) st) (\<lambda>st1. Ret (s, st1, True))
      else bnd (setByte s) (\<lambda>(s1, w).
        let d = (case w of None \<Rightarrow> [] | Some b \<Rightarrow> b)
        in if n \<noteq> length d then Ret (s1, st, False)
           else bnd (write_array tgt d st) (\<lambda>st1. Ret (s1, st1, True))))"

definition nonnil_ptr :: "gval option \<Rightarrow> bool" where
  "nonnil_ptr x = (case x of Some (GPtr (Some y)) \<Rightarrow> True | _ \<Rightarrow> False)"

definition zero_elem :: "nat option \<Rightarrow> gval" where
  "zero_elem el = (case el of None \<Rightarrow> GZero | Some n \<Rightarrow> GArray (zero_bytes n))"

definition trySetByteArray ::
  "scanner \<Rightarrow> store \<Rightarrow> dst \<Rightarrow> bool \<Rightarrow> bool \<Rightarrow> (scanner \<times> store \<times> bool) res" where
  "trySetByteArray s st v optional def =
     (case shape_of v of
        ShNone \<Rightarrow> Ret (s, st, False)
      | ShArrayValue n \<Rightarrow> set_byte_array s st n Unsettable def
      | ShPtrArray n a \<Rightarrow> set_byte_array s st n (Direct a) def
      | ShPtrPtr el a \<Rightarrow>
          if \<not> optional then Ret (s, st, False)
          else bnd (isNull s) (\<lambda>null.
            if null then Ret (s, st(a \<mapsto> GPtr None), True)
            else
              let st1 = (if nonnil_ptr (st a) then st else st(a \<mapsto> GPtr (Some (zero_elem el))))
              in case el of
                   None \<Rightarrow> Ret (s, st1, False)
                 | Some n \<Rightarrow> set_byte_array s st1 n (Through a) def))"

text \<open>\<open>*v = x\<close> with \<open>x\<close> the result of a decoder.\<close>

definition assign_from ::
  "nat option \<Rightarrow> ('a \<Rightarrow> gval) \<Rightarrow> (scanner \<times> 'a) res \<Rightarrow> store \<Rightarrow> (scanner \<times> store) res" where
  "assign_from p mk m st =
     bnd m (\<lambda>(s1, x). bnd (assign p (mk x) st) (\<lambda>st1. Ret (s1, st1)))"

text \<open>The write through the pointer handed to \<open>setTime\<close>, \<open>setString\<close>, \<open>setByte\<close>.\<close>

definition assign_if_set ::
  "nat option \<Rightarrow> ('a \<Rightarrow> gval) \<Rightarrow> (scanner \<times> 'a option) res \<Rightarrow> store \<Rightarrow> (scanner \<times> store) res"
  where
  "assign_if_set p mk m st =
     bnd m (\<lambda>(s1, w). case w of
        None \<Rightarrow> Ret (s1, st)
      | Some x \<Rightarrow> bnd (assign p (mk x) st) (\<lambda>st1. Ret (s1, st1)))"

definition call_sql_Scan ::
  "(gval option \<Rightarrow> user_error option) \<Rightarrow> scanner \<Rightarrow> gval option \<Rightarrow> scanner" where
  "call_sql_Scan f s src =
     (case f src of
        None \<Rightarrow> s
      | Some e \<Rightarrow> errorf s ''sql.Scanner error: %w'' [ArgError e])"

definition call_UnmarshalYDB ::
  "(scanStack \<Rightarrow> scanStack \<times> scan_error option \<times> user_error option) \<Rightarrow> scanner \<Rightarrow> scanner"
  where
  "call_UnmarshalYDB f s =
     (case f (stack s) of (stk, recorded, returned) \<Rightarrow>
        let s1 = s\<lparr>stack := stk\<rparr>;
            s2 = (case recorded of
                    None \<Rightarrow> s1
                  | Some e \<Rightarrow> if err s1 \<noteq> None then s1 else s1\<lparr>err := Some e\<rparr>)
        in (case returned of
              None \<Rightarrow> s2
            | Some e \<Rightarrow> errorf s2 ''ydb.Scanner error: %w'' [ArgError e]))"

definition unknown_type :: "scanner \<Rightarrow> dst \<Rightarrow> scanner" where
  "unknown_type s v = errorf s ''scan row failed: types %T is unknown'' [ArgGoType (TypeOf v)]"

definition scanRequired :: "timeutil \<Rightarrow> scanner \<Rightarrow> dst \<Rightarrow> store \<Rightarrow> (scanner \<times> store) res" where
  "scanRequired tu s v st =
     (case v of
        Ptr T p \<Rightarrow>
          (case T of
             T_bool \<Rightarrow> assign_from p GBool (bool' s) st
           | T_int8 \<Rightarrow> assign_from p GInt8 (int8 s) st
           | T_int16 \<Rightarrow> assign_from p GInt16 (int16 s) st
           | T_int \<Rightarrow> assign_from p (\<lambda>x. GInt (scast x)) (int32 s) st
           | T_int32 \<Rightarrow> assign_from p GInt32 (int32 s) st
           | T_int64 \<Rightarrow> assign_from p GInt64 (int64 s) st
           | T_uint8 \<Rightarrow> assign_from p GUint8 (uint8 s) st
           | T_uint16 \<Rightarrow> assign_from p GUint16 (uint16 s) st
           | T_uint32 \<Rightarrow> assign_from p GUint32 (uint32 s) st
           | T_uint \<Rightarrow> assign_from p (\<lambda>x. GUint (ucast x)) (uint32 s) st
           | T_uint64 \<Rightarrow> assign_from p GUint64 (uint64 s) st
           | T_float32 \<Rightarrow> assign_from p GFloat32 (float s) st
           | T_float64 \<Rightarrow> assign_from p GFloat64 (double s) st
           | T_Time \<Rightarrow> assign_if_set p GTime (setTime tu s) st
           | T_Duration \<Rightarrow> assign_from p (\<lambda>x. GDuration (UnmarshalInterval x)) (int64 s) st
           | T_string \<Rightarrow> assign_if_set p GString (setString s) st
           | T_bytes \<Rightarrow> assign_if_set p GBytes (setByte s) st
           | T_array16 \<Rightarrow> assign_from p GArray (uint128 s) st
           | T_interface \<Rightarrow> assign_from p GIface (any tu s) st
           | T_Value \<Rightarrow> bnd (value' s) (\<lambda>x. bnd (assign p x st) (\<lambda>st1. Ret (s, st1)))
           | T_Decimal \<Rightarrow> assign_from p (\<lambda>x. x) (unwrapDecimal s) st)
      | SqlScanner f \<Rightarrow> bnd (any tu s) (\<lambda>(s1, src). Ret (call_sql_Scan f s1 src, st))
      | YdbScanner f \<Rightarrow> Ret (call_UnmarshalYDB f s, st)
      | _ \<Rightarrow>
          bnd (trySetByteArray s st v False False) (\<lambda>(s1, st1, ok).
            if ok then Ret (s1, st1) else Ret (unknown_type s1 v, st1)))"

definition setDefaultValue :: "scanner \<Rightarrow> dst \<Rightarrow> store \<Rightarrow> (scanner \<times> store) res" where
  "setDefaultValue s v st =
     (let dflt =
        bnd (trySetByteArray s st v False True) (\<lambda>(s1, st1, ok).
          if ok then Ret (s1, st1) else Ret (unknown_type s1 v, st1))
      in case v of
        Ptr T p \<Rightarrow>
          (case T of
             T_bool \<Rightarrow> bnd (assign p (GBool False) st) (\<lambda>st1. Ret (s, st1))
           | T_int8 \<Rightarrow> bnd (assign p (GInt8 0) st) (\<lambda>st1. Ret (s, st1))
           | T_int16 \<Rightarrow> bnd (assign p (GInt16 0) st) (\<lambda>st1. Ret (s, st1))
           | T_int32 \<Rightarrow> bnd (assign p (GInt32 0) st) (\<lambda>st1. Ret (s, st1))
           | T_int64 \<Rightarrow> bnd (assign p (GInt64 0) st) (\<lambda>st1. Ret (s, st1))
           | T_uint8 \<Rightarrow> bnd (assign p (GUint8 0) st) (\<lambda>st1. Ret (s, st1))
           | T_uint16 \<Rightarrow> bnd (assign p (GUint16 0) st) (\<lambda>st1. Ret (s, st1))
           | T_uint32 \<Rightarrow> bnd (assign p (GUint32 0) st) (\<lambda>st1. Ret (s, st1))
           | T_uint64 \<Rightarrow> bnd (assign p (GUint64 0) st) (\<lambda>st1. Ret (s, st1))
           | T_float32 \<Rightarrow> bnd (assign p (GFloat32 0) st) (\<lambda>st1. Ret (s, st1))
           | T_float64 \<Rightarrow> bnd (assign p (GFloat64 0) st) (\<lambda>st1. Ret (s, st1))
           | T_Time \<Rightarrow> bnd (assign p (GTime Time_zero) st) (\<lambda>st1. Ret (s, st1))
           | T_Duration \<Rightarrow> bnd (assign p (GDuration 0) st) (\<lambda>st1. Ret (s, st1))
           | T_string \<Rightarrow> bnd (assign p (GString []) st) (\<lambda>st1. Ret (s, st1))
           | T_bytes \<Rightarrow> bnd (assign p (GBytes []) st) (\<lambda>st1. Ret (s, st1))
           | T_array16 \<Rightarrow> bnd (assign p (GArray (zero_bytes 16)) st) (\<lambda>st1. Ret (s, st1))
           | T_interface \<Rightarrow> bnd (assign p (GIface None) st) (\<lambda>st1. Ret (s, st1))
           | T_Value \<Rightarrow> bnd (value' s) (\<lambda>x. bnd (assign p x st) (\<lambda>st1. Ret (s, st1)))
           | T_Decimal \<Rightarrow> bnd (assign p zero_Decimal st) (\<lambda>st1. Ret (s, st1))
           | _ \<Rightarrow> dflt)
      | SqlScanner f \<Rightarrow> Ret (call_sql_Scan f s None, st)
      | YdbScanner f \<Rightarrow> Ret (call_UnmarshalYDB f s, st)
      | _ \<Rightarrow> dflt)"

text \<open>
  \<open>*v = &src\<close> with \<open>src\<close> a new variable holding the result of a decoder.
\<close>

definition assign_new ::
  "nat option \<Rightarrow> ('a \<Rightarrow> gval) \<Rightarrow> (scanner \<times> 'a) res \<Rightarrow> store \<Rightarrow> (scanner \<times> store) res" where
  "assign_new p mk m st =
     bnd m (\<lambda>(s1, x). bnd (assign p (GPtr (Some (mk x))) st) (\<lambda>st1. Ret (s1, st1)))"

text \<open>
  The same after \<open>s.unwrap()\<close>, for \<open>var src T; s.setT(&src); *v = &src\<close>: \<open>src\<close>
  keeps its zero value \<open>z\<close> when the setter writes nothing.
\<close>

definition assign_new_set ::
  "nat option \<Rightarrow> ('a \<Rightarrow> gval) \<Rightarrow> 'a \<Rightarrow> (scanner \<Rightarrow> (scanner \<times> 'a option) res) \<Rightarrow> scanner
     \<Rightarrow> store \<Rightarrow> (scanner \<times> store) res" where
  "assign_new_set p mk z setter s st =
     bnd (unwrap s) (\<lambda>s1. bnd (setter s1) (\<lambda>(s2, w).
       bnd (assign p (GPtr (Some (mk (case w of None \<Rightarrow> z | Some x \<Rightarrow> x)))) st)
         (\<lambda>st1. Ret (s2, st1))))"

definition is_ptr_ptr :: "go_dst_type \<Rightarrow> bool" where
  "is_ptr_ptr t =
     (case t of
        TyPtrPtr T \<Rightarrow> True
      | TyPtrPtrByteArray n \<Rightarrow> True
      | TyPtrPtrOther \<Rightarrow> True
      | _ \<Rightarrow> False)"

text \<open>
  The default branch of \<open>scanOptional\<close>. \<open>reflect.TypeOf\<close> of the nil interface is
  nil, and \<open>Kind\<close> on it panics.
\<close>

definition scanOptional_default :: "scanner \<Rightarrow> dst \<Rightarrow> store \<Rightarrow> (scanner \<times> store) res" where
  "scanOptional_default s v st =
     bnd (unwrap s) (\<lambda>s1.
       bnd (trySetByteArray s1 st v True False) (\<lambda>(s2, st1, ok).
         if ok then Ret (s2, st1)
         else if TypeOf v = TyNil
         then Panic ''invalid memory address or nil pointer dereference''
         else if is_ptr_ptr (TypeOf v) then Ret (unknown_type s2 v, st1)
         else Ret (errorf s2
                ''scan row failed: types %T is not optional! use double pointer or sql.Scanner.''
                [ArgGoType (TypeOf v)], st1)))"

text \<open>
  The cases \<open>**T\<close> of the type switch of \<open>scanOptional\<close>; \<open>**types.Value\<close> is none
  of them and goes to the default branch.
\<close>

definition scanOptional_ptr ::
  "timeutil \<Rightarrow> scanner \<Rightarrow> go_type \<Rightarrow> nat option \<Rightarrow> store \<Rightarrow> (scanner \<times> store) res" where
  "scanOptional_ptr tu s T p st =
     bnd (isNull s) (\<lambda>null.
       if null then bnd (assign p (GPtr None) st) (\<lambda>st1. Ret (s, st1))
       else
         (case T of
            T_bool \<Rightarrow> assign_new p GBool (bool' s) st
          | T_int8 \<Rightarrow> assign_new p GInt8 (int8 s) st
          | T_int16 \<Rightarrow> assign_new p GInt16 (int16 s) st
          | T_int32 \<Rightarrow> assign_new p GInt32 (int32 s) st
          | T_int \<Rightarrow> assign_new p (\<lambda>x. GInt (scast x)) (int32 s) st
          | T_int64 \<Rightarrow> assign_new p GInt64 (int64 s) st
          | T_uint8 \<Rightarrow> assign_new p GUint8 (uint8 s) st
          | T_uint16 \<Rightarrow> assign_new p GUint16 (uint16 s) st
          | T_uint32 \<Rightarrow> assign_new p GUint32 (uint32 s) st
          | T_uint \<Rightarrow> assign_new p (\<lambda>x. GUint (ucast x)) (uint32 s) st
          | T_uint64 \<Rightarrow> assign_new p GUint64 (uint64 s) st
          | T_float32 \<Rightarrow> assign_new p GFloat32 (float s) st
          | T_float64 \<Rightarrow> assign_new p GFloat64 (double s) st
          | T_Time \<Rightarrow> assign_new_set p GTime Time_zero (setTime tu) s st
          | T_Duration \<Rightarrow> assign_new p (\<lambda>x. GDuration (UnmarshalInterval x)) (int64 s) st
          | T_string \<Rightarrow> assign_new_set p GString [] setString s st
          | T_bytes \<Rightarrow> assign_new_set p GBytes [] setByte s st
          | T_array16 \<Rightarrow> assign_new p GArray (uint128 s) st
          | T_interface \<Rightarrow> assign_new p GIface (any tu s) st
          | T_Decimal \<Rightarrow> assign_new p (\<lambda>x. x) (unwrapDecimal s) st
          | T_Value \<Rightarrow> scanOptional_default s (PtrPtr T p) st))"

definition scanOptional :: "timeutil \<Rightarrow> scanner \<Rightarrow> dst \<Rightarrow> store \<Rightarrow> (scanner \<times> store) res" where
  "scanOptional tu s v st =
     (if defaultValueForOptional s
      then bnd (isNull s) (\<lambda>null.
        if null then setDefaultValue s v st
        else bnd (unwrap s) (\<lambda>s1. scanRequired tu s1 v st))
      else
        (case v of
           PtrPtr T p \<Rightarrow>
             if T = T_Value then scanOptional_default s v st
             else scanOptional_ptr tu s T p st
         | SqlScanner f \<Rightarrow> bnd (any tu s) (\<lambda>(s1, src). Ret (call_sql_Scan f s1 src, st))
         | YdbScanner f \<Rightarrow> Ret (call_UnmarshalYDB f s, st)
         | Ptr T p \<Rightarrow>
             if T = T_Value
             then bnd (value' s) (\<lambda>x. bnd (assign p x st) (\<lambda>st1. Ret (s, st1)))
             else scanOptional_default s v st
         | _ \<Rightarrow> scanOptional_default s v st))"

section \<open>Rows and Scan\<close>

definition ColumnCount :: "scanner \<Rightarrow> nat" where
  "ColumnCount s = (case set' s of None \<Rightarrow> 0 | Some rs \<Rightarrow> length (Columns rs))"

definition HasNextRow :: "scanner \<Rightarrow> bool" where
  "HasNextRow s =
     (err s = None \<and> (case set' s of None \<Rightarrow> False | Some rs \<Rightarrow> nextRow s < length (Rows rs)))"

definition NextRow :: "scanner \<Rightarrow> scanner \<times> bool" where
  "NextRow s =
     (if \<not> HasNextRow s then (s, False)
      else
        (case set' s of
           None \<Rightarrow> (s, False)
         | Some rs \<Rightarrow>
             (s\<lparr>row := Rows rs ! nextRow s, nextRow := nextRow s + 1, nextItem := 0,
                stack := stack_reset (stack s)\<rparr>, True)))"

definition Truncated :: "scanner \<Rightarrow> scanner \<times> bool" where
  "Truncated s =
     (case set' s of
        None \<Rightarrow> (errorf s ''there are no sets in the scanner'' [], False)
      | Some rs \<Rightarrow> (s, rs_Truncated rs))"

text \<open>
  \<open>seekItemByID\<close>: the column count is checked, the length of the row is not, so the
  read \<open>s.row.Items[id]\<close> panics on a row with fewer items than columns.
\<close>

definition seekItemByID :: "scanner \<Rightarrow> nat \<Rightarrow> scanner res" where
  "seekItemByID s id' =
     (case (err s, set' s, row s) of
        (None, Some rs, Some r) \<Rightarrow>
          if id' \<ge> length (Columns rs) then noValueError s
          else if id' < length (Items r)
          then Ret (s\<lparr>stack := (stack s)\<lparr>scanItem := (scanItem (stack s))
                 \<lparr>item_name := Name (Columns rs ! id'), item_t := Type (Columns rs ! id'),
                  item_v := Items r ! id'\<rparr>\<rparr>\<rparr>)
          else Panic ''index out of range''
      | _ \<Rightarrow> noValueError s)"

text \<open>
  The loop of \<open>scan\<close> from index \<open>i\<close> on the remaining destinations; \<open>n\<close> is
  \<open>len(values)\<close>. Its empty case is the statement after the loop; the return inside
  the loop leaves \<open>nextItem\<close> as it is.
\<close>

fun scan_loop ::
  "timeutil \<Rightarrow> scanner \<Rightarrow> nat \<Rightarrow> nat \<Rightarrow> dst list \<Rightarrow> store \<Rightarrow> (scanner \<times> store) res" where
  "scan_loop tu s i n [] st = Ret (s\<lparr>nextItem := nextItem s + n\<rparr>, st)"
| "scan_loop tu s i n (v # vs) st =
     bnd (case columnIndexes s of
            None \<Rightarrow> seekItemByID s i
          | Some idx \<Rightarrow>
              if i < length idx then seekItemByID s (idx ! i) else Panic ''index out of range'')
       (\<lambda>s1.
         if err s1 \<noteq> None then Ret (s1, st)
         else bnd (isCurrentTypeOptional s1) (\<lambda>opt.
           bnd (if opt then scanOptional tu s1 v st else scanRequired tu s1 v st)
             (\<lambda>(s2, st2). scan_loop tu s2 (Suc i) n vs st2)))"

definition count_mismatch :: "scanner \<Rightarrow> dst list \<Rightarrow> bool" where
  "count_mismatch s values =
     (case columnIndexes s of None \<Rightarrow> False | Some idx \<Rightarrow> length idx \<noteq> length values)"

definition scan ::
  "timeutil \<Rightarrow> scanner \<Rightarrow> dst list \<Rightarrow> store \<Rightarrow> (scanner \<times> store \<times> scan_error option) res"
  where
  "scan tu s values st =
     (if err s \<noteq> None then Ret (s, st, err s)
      else if count_mismatch s values
      then (let s1 = errorf s ''scan row failed: count of values and column are different'' []
            in Ret (s1, st, err s1))
      else if ColumnCount s < length values
      then (let s1 = errorf s ''scan row failed: count of columns less then values'' []
            in Ret (s1, st, err s1))
      else if nextItem s \<noteq> 0 then Panic ''scan row failed: double scan per row''
      else bnd (scan_loop tu s 0 (length values) values st) (\<lambda>(s1, st1). Ret (s1, st1, err s1)))"

definition ScanWithDefaults ::
  "timeutil \<Rightarrow> scanner \<Rightarrow> dst list \<Rightarrow> store \<Rightarrow> (scanner \<times> store \<times> scan_error option) res"
  where
  "ScanWithDefaults tu s values st = scan tu (s\<lparr>defaultValueForOptional := True\<rparr>) values st"

definition Scan ::
  "timeutil \<Rightarrow> scanner \<Rightarrow> dst list \<Rightarrow> store \<Rightarrow> (scanner \<times> store \<times> scan_error option) res"
  where
  "Scan tu s values st = scan tu (s\<lparr>defaultValueForOptional := False\<rparr>) values st"

section \<open>reset\<close>

fun find_column :: "column list \<Rightarrow> string \<Rightarrow> nat \<Rightarrow> nat option" where
  "find_column [] col j = None"
| "find_column (c # cs) col j = (if Name c = col then Some j else find_column cs col (Suc j))"

fun fill_columnIndexes :: "scanner \<Rightarrow> nat list \<Rightarrow> nat \<Rightarrow> string list \<Rightarrow> scanner res" where
  "fill_columnIndexes s idx i [] = Ret (s\<lparr>columnIndexes := Some idx\<rparr>)"
| "fill_columnIndexes s idx i (col # cols) =
     (case set' s of
        None \<Rightarrow> Panic ''invalid memory address or nil pointer dereference''
      | Some rs \<Rightarrow>
          (case find_column (Columns rs) col 0 of
             Some j \<Rightarrow> fill_columnIndexes s (idx[i := j]) (Suc i) cols
           | None \<Rightarrow> Ret (noColumnError (s\<lparr>columnIndexes := Some idx\<rparr>) col)))"

definition setColumnIndexes :: "scanner \<Rightarrow> string list option \<Rightarrow> scanner res" where
  "setColumnIndexes s columns =
     (case columns of
        None \<Rightarrow> Ret (s\<lparr>columnIndexes := None\<rparr>)
      | Some cols \<Rightarrow> fill_columnIndexes s (replicate (length cols) 0) 0 cols)"

definition reset :: "scanner \<Rightarrow> ResultSet option \<Rightarrow> string list option \<Rightarrow> scanner res" where
  "reset s rs columnNames =
     bnd (setColumnIndexes
            (s\<lparr>set' := rs, row := None, nextRow := 0, nextItem := 0, columnIndexes := None,
               defaultValueForOptional := True\<rparr>) columnNames)
       (\<lambda>s1. Ret (s1\<lparr>stack := stack_reset (stack s1)\<rparr>))"

text \<open>The zero value of the struct \<open>scanner\<close>.\<close>

definition new_scanner :: scanner where
  "new_scanner =
     \<lparr>set' = None, row = None,
      stack = \<lparr>stack_v = [], stack_p = 0, scanItem = emptyItem\<rparr>,
      nextRow = 0, nextItem = 0, columnIndexes = None, defaultValueForOptional = False,
      err = None\<rparr>"

section \<open>A caller of the scanner\<close>

text \<open>
  The calls a client makes on a scanner, in order, and what each returns to it.
  \<open>CallRead a\<close> is the client reading its own variable \<open>a\<close>. A panic of any call
  ends the run.
\<close>

datatype call =
    CallReset "ResultSet option" "string list option"
  | CallNextRow
  | CallScan "dst list"
  | CallScanWithDefaults "dst list"
  | CallErr
  | CallRead nat

datatype reply = OutBool bool | OutError "scan_error option" | OutVar "gval option"

fun run :: "timeutil \<Rightarrow> call list \<Rightarrow> scanner \<Rightarrow> store \<Rightarrow> reply list res" where
  "run tu [] s st = Ret []"
| "run tu (CallReset rs names # cs) s st = bnd (reset s rs names) (\<lambda>s1. run tu cs s1 st)"
| "run tu (CallNextRow # cs) s st =
     (case NextRow s of (s1, b) \<Rightarrow> bnd (run tu cs s1 st) (\<lambda>out. Ret (OutBool b # out)))"
| "run tu (CallScan values # cs) s st =
     bnd (Scan tu s values st) (\<lambda>(s1, st1, e).
       bnd (run tu cs s1 st1) (\<lambda>out. Ret (OutError e # out)))"
| "run tu (CallScanWithDefaults values # cs) s st =
     bnd (ScanWithDefaults tu s values st) (\<lambda>(s1, st1, e).
       bnd (run tu cs s1 st1) (\<lambda>out. Ret (OutError e # out)))"
| "run tu (CallErr # cs) s st = bnd (run tu cs s st) (\<lambda>out. Ret (OutError (Err s) # out))"
| "run tu (CallRead a # cs) s st = bnd (run tu cs s st) (\<lambda>out. Ret (OutVar (st a) # out))"

text \<open>A call other than \<open>reset\<close>, and what it returns once the error \<open>e\<close> is recorded.\<close>

fun not_reset :: "call \<Rightarrow> bool" where
  "not_reset (CallReset rs names) = False"
| "not_reset c = True"

fun sticky_output :: "scan_error \<Rightarrow> store \<Rightarrow> call \<Rightarrow> reply" where
  "sticky_output e st CallNextRow = OutBool False"
| "sticky_output e st (CallRead a) = OutVar (st a)"
| "sticky_output e st c = OutError (Some e)"


section \<open>Result sets of the scenarios\<close>

text \<open>
  A non-null cell of a primitive or of a singly optional primitive column carries the
  value itself; a null cell carries the null flag.
\<close>

definition cell :: "value_kind \<Rightarrow> ydb_value option" where
  "cell k = Some (YValue (Some k) [] 0)"

definition row_of :: "value_kind list \<Rightarrow> ydb_value option" where
  "row_of ks = Some (YValue None (map cell ks) 0)"

definition primitive_type :: "type_id \<Rightarrow> ydb_type option" where
  "primitive_type t = Some (YType (Some (Type_TypeId t)))"

definition optional_type :: "ydb_type option \<Rightarrow> ydb_type option" where
  "optional_type t = Some (YType (Some (Type_OptionalType t)))"

definition result_set :: "ydb_type option \<Rightarrow> value_kind list \<Rightarrow> ResultSet" where
  "result_set t ks =
     \<lparr>Columns = [Column ''c'' t], Rows = map (\<lambda>k. row_of [k]) ks, rs_Truncated = False\<rparr>"

text \<open>Time-zone parsers that accept every text.\<close>

definition tz_ok :: timeutil where
  "tz_ok =
     \<lparr>UnmarshalTzDate = (\<lambda>x. (Time_parsed 0, None)),
      UnmarshalTzDatetime = (\<lambda>x. (Time_parsed 0, None)),
      UnmarshalTzTimestamp = (\<lambda>x. (Time_parsed 0, None))\<rparr>"

text \<open>
  The scanner is on a row not yet scanned, positional, with no error, and the first
  column has type \<open>t\<close> and the first cell of the row holds \<open>k\<close>.
\<close>

definition on_cell :: "scanner \<Rightarrow> ydb_type option \<Rightarrow> value_kind \<Rightarrow> bool" where
  "on_cell s t k =
     (err s = None \<and> nextItem s = 0 \<and> columnIndexes s = None \<and>
      (case (set' s, row s) of
         (Some rs, Some r) \<Rightarrow>
           (case (Columns rs, Items r) of
              (c # cs, Some x # xs) \<Rightarrow> Type c = t \<and> value_oneof x = Some k
            | _ \<Rightarrow> False)
       | _ \<Rightarrow> False))"

text \<open>
  The scanner once \<open>seekItemByID\<close> has made the item with name \<open>n\<close>, type \<open>t\<close>
  and value \<open>x\<close> the item under scan.
\<close>

definition at_item :: "scanner \<Rightarrow> string \<Rightarrow> ydb_type option \<Rightarrow> ydb_value option \<Rightarrow> scanner" where
  "at_item s n t x =
     s\<lparr>stack := (stack s)\<lparr>scanItem := (scanItem (stack s))
        \<lparr>item_name := n, item_t := t, item_v := x\<rparr>\<rparr>\<rparr>"

text \<open>The scanner a client holds after \<open>reset\<close> on a result set and one \<open>NextRow\<close>.\<close>

definition on_first_row :: "ResultSet \<Rightarrow> scanner" where
  "on_first_row rs =
     (case reset new_scanner (Some rs) None of
        Ret s \<Rightarrow> fst (NextRow s)
      | Panic msg \<Rightarrow> new_scanner)"

text \<open>
  The error \<open>overflowError\<close> builds for the wire value \<open>i\<close> and the zero of the
  destination's type.
\<close>

definition overflow :: "int \<Rightarrow> scan_error" where
  "overflow i = Errorf ''overflow error: %d overflows capacity of %t'' [ArgInt i, ArgInt 0]"

text \<open>
  The error the default branch of \<open>scanOptional\<close> records for a destination \<open>*T\<close>.
\<close>

definition not_optional_error :: "go_type \<Rightarrow> scan_error" where
  "not_optional_error T =
     Errorf ''scan row failed: types %T is not optional! use double pointer or sql.Scanner.''
       [ArgGoType (TyPtr T)]"

section \<open>The retry engine\<close>

text \<open>
  Modelled from the spec: the retry engine (\<open>Do\<close>), the error classifier and the
  session pool are not among the sources (only \<open>retry_test.go\<close> is). The classifier
  follows the table of section 4.A of the spec and \<open>Do\<close> the seven steps of section
  4.J. An error that is neither a transport error nor an operation error, nor wraps
  one, is not in the table; \<open>TestRetryerImmediateReturn\<close> has it returned at once, so
  it is classified as not retriable.
\<close>

datatype transport_code =
    TransportCanceled | TransportUnknown | TransportInternal | TransportUnavailable
  | TransportResourceExhausted | TransportOutOfRange | TransportInvalidArgument
  | TransportNotFound | TransportAlreadyExists | TransportPermissionDenied
  | TransportFailedPrecondition | TransportUnimplemented | TransportDataLoss
  | TransportUnauthenticated | TransportDeadlineExceeded | TransportAborted

datatype op_status =
    BadSession | SessionExpired | Overloaded | OpAborted | Undetermined | OpUnavailable
  | BadRequest | Unauthorized | SchemeError | GenericError | Timeout | PreconditionFailed
  | OpAlreadyExists | OpNotFound | Cancelled | Unsupported | SessionBusy

datatype go_error =
    TransportError transport_code
  | OpError op_status
  | errors_New string
  | Wrap string go_error
  | context_Canceled
  | context_DeadlineExceeded

datatype backoff_kind = NoBackoff | FastBackoff | SlowBackoff

record policy =
  mustPessimize :: bool
  mustCloseSession :: bool
  backoff :: backoff_kind
  retriable :: bool
  completionUndefined :: bool





record trace =
  gets :: nat
  invocations :: nat
  backoffs :: nat
  put_back :: "nat list"
  closed :: "nat list"


text \<open>Step 5, first half: the session, if one was obtained, is closed or put back.\<close>

definition release :: "policy \<Rightarrow> nat option \<Rightarrow> trace \<Rightarrow> trace" where
  "release p sess tr =
     (case sess of
        None \<Rightarrow> tr
      | Some x \<Rightarrow>
          if mustCloseSession p then tr\<lparr>closed := closed tr @ [x]\<rparr>
          else tr\<lparr>put_back := put_back tr @ [x]\<rparr>)"



section \<open>Properties of the context endpoint\<close>

lemma ContextEndpoint_not_attached:
  "\<not> endpoint_attached ctx \<Longrightarrow> ctx_Value ctx ctxEndpointKey = AnyNil"
  by (induction ctx) auto

text \<open>
  Claim C8, as the code has it. Attaching an endpoint that is not nil to any context
  and reading it back gives \<open>(e, true)\<close>. A nil \<open>Endpoint\<close> is stored as a nil
  \<open>interface{}\<close>, on which the type assertion fails: after attaching nil to any
  context, one that carries an endpoint included, \<open>ContextEndpoint\<close> gives
  \<open>(nil, false)\<close>. On a context no wrapper of which carries the endpoint key,
  \<open>ContextEndpoint\<close> gives \<open>(nil, false)\<close>.
\<close>

theorem context_endpoint_roundtrip:
  "ContextEndpoint (WithEndpoint ctx (Some e)) = (Some e, True)
   \<and> ContextEndpoint (WithEndpoint ctx None) = (None, False)
   \<and> (\<not> endpoint_attached ctx' \<longrightarrow> ContextEndpoint ctx' = (None, False))"
  by (simp add: ContextEndpoint_def WithEndpoint_def endpoint_to_any_def
      ContextEndpoint_not_attached)

theorem context_endpoint_roundtrip_witness:
  "ContextEndpoint
     (WithEndpoint (WithCancel (WithValue Background (OtherKey 1) (AnyOther 7)))
        (Some (EndpointImpl 1 ''node-1:2135'')))
     = (Some (EndpointImpl 1 ''node-1:2135''), True)
   \<and> ContextEndpoint
       (WithEndpoint (WithCancel (WithValue Background (OtherKey 1) (AnyOther 7))) None)
     = (None, False)
   \<and> \<not> endpoint_attached (WithCancel (WithValue Background (OtherKey 1) (AnyOther 7)))
   \<and> ContextEndpoint (WithCancel (WithValue Background (OtherKey 1) (AnyOther 7)))
     = (None, False)"
  using context_endpoint_roundtrip
    [of "WithCancel (WithValue Background (OtherKey 1) (AnyOther 7))"
        "EndpointImpl 1 ''node-1:2135''"
        "WithCancel (WithValue Background (OtherKey 1) (AnyOther 7))"]
  by simp

text \<open>
  The claim as stated fails for the nil endpoint: \<open>ContextEndpoint\<close> of
  \<open>WithEndpoint(ctx, nil)\<close> is \<open>(nil, false)\<close>, not \<open>(nil, true)\<close>, on the
  background context and on a context that carries an endpoint.
\<close>

theorem context_endpoint_nil_counterexample:
  "ContextEndpoint (WithEndpoint Background None) = (None, False)
   \<and> ContextEndpoint (WithEndpoint Background None) \<noteq> (None, True)
   \<and> ContextEndpoint
        (WithEndpoint (WithEndpoint Background (Some (EndpointImpl 1 ''node-1:2135''))) None)
      = (None, False)"
  by (simp add: ContextEndpoint_def WithEndpoint_def endpoint_to_any_def)

section \<open>Properties of the lazy coordination client\<close>

text \<open>
  Claim C7. \<open>Close\<close> on a lazy client that holds no internal client (never
  initialised, or already closed) returns nil and changes nothing, the log of calls to
  the internal client included; and whatever the first \<open>Close\<close> did, a second
  \<open>Close\<close> returns nil and leaves the state, hence the log, as the first left it.
\<close>

theorem lazyCoordination_Close_idempotent:
  "Close cc ctx (c\<lparr>client := None\<rparr>) = (c\<lparr>client := None\<rparr>, None)
   \<and> Close cc ctx2 (fst (Close cc ctx1 c)) = (fst (Close cc ctx1 c), None)
   \<and> client_calls (fst (Close cc ctx2 (fst (Close cc ctx1 c))))
       = client_calls (fst (Close cc ctx1 c))"
  by (simp add: Close_def split: option.splits)

section \<open>Properties of the composite credentials\<close>

lemma multi_loop_all_fail:
  "\<forall>p \<in> set cs. token_fails ctx p \<Longrightarrow> cs \<noteq> [] \<Longrightarrow>
     multi_loop cs ctx token er n = (Token (last cs) ctx, n + length cs)"
proof (induction cs arbitrary: token er n)
  case Nil
  then show ?case by simp
next
  case (Cons c cs)
  obtain tk e where c: "Token c ctx = (tk, Some e)"
    using Cons.prems(1) by (cases "Token c ctx") (auto simp: token_fails_def)
  show ?case
  proof (cases "cs = []")
    case True
    then show ?thesis using c by simp
  next
    case False
    then show ?thesis using c Cons.IH [of tk "Some e" "Suc n"] Cons.prems(1) by simp
  qed
qed

lemma multi_loop_first_success:
  "\<forall>p \<in> set pre. token_fails ctx p \<Longrightarrow> Token c ctx = (tk, None) \<Longrightarrow>
     multi_loop (pre @ c # post) ctx token er n = ((tk, None), n + length pre + 1)"
proof (induction pre arbitrary: token er n)
  case Nil
  then show ?case by simp
next
  case (Cons p pre)
  obtain tk' e where p: "Token p ctx = (tk', Some e)"
    using Cons.prems(1) by (cases "Token p ctx") (auto simp: token_fails_def)
  show ?case
    using p Cons.IH [of tk' "Some e" "Suc n"] Cons.prems by simp
qed

text \<open>
  The composite itself: with providers \<open>pre @ c # post\<close> where every provider of
  \<open>pre\<close> fails and \<open>c\<close> succeeds with token \<open>tk\<close>, \<open>Token\<close> returns \<open>tk\<close>
  with no error after consulting exactly \<open>length pre + 1\<close> providers; when every
  provider of a non-empty composite fails, it returns what the last provider returned.
\<close>

lemma multiCredentials_struct_Token:
  "((\<forall>p \<in> set pre. token_fails ctx p) \<and> Token c ctx = (tk, None) \<longrightarrow>
      Token (multiCredentials (pre @ c # post)) ctx = (tk, None)
      \<and> consulted (pre @ c # post) ctx = length pre + 1)
   \<and> ((\<forall>p \<in> set cs. token_fails ctx p) \<and> cs \<noteq> [] \<longrightarrow>
      Token (multiCredentials cs) ctx = Token (last cs) ctx
      \<and> snd (Token (multiCredentials cs) ctx) \<noteq> None
      \<and> consulted cs ctx = length cs)
   \<and> Token (MultiCredentials []) ctx = ([], Some ErrCredentialsNoCredentials)
   \<and> providers (MultiCredentials []) = []"
proof -
  have a: "(\<forall>p \<in> set pre. token_fails ctx p) \<and> Token c ctx = (tk, None) \<longrightarrow>
      Token (multiCredentials (pre @ c # post)) ctx = (tk, None)
      \<and> consulted (pre @ c # post) ctx = length pre + 1"
    by (simp add: consulted_def multi_loop_first_success)
  have b: "(\<forall>p \<in> set cs. token_fails ctx p) \<and> cs \<noteq> [] \<longrightarrow>
      Token (multiCredentials cs) ctx = Token (last cs) ctx
      \<and> snd (Token (multiCredentials cs) ctx) \<noteq> None
      \<and> consulted cs ctx = length cs"
  proof
    assume h: "(\<forall>p \<in> set cs. token_fails ctx p) \<and> cs \<noteq> []"
    then have "token_fails ctx (last cs)" by simp
    then show "Token (multiCredentials cs) ctx = Token (last cs) ctx
      \<and> snd (Token (multiCredentials cs) ctx) \<noteq> None
      \<and> consulted cs ctx = length cs"
      using h by (simp add: consulted_def multi_loop_all_fail token_fails_def)
  qed
  have c: "Token (MultiCredentials []) ctx = ([], Some ErrCredentialsNoCredentials)
      \<and> providers (MultiCredentials []) = []"
    by (simp add: MultiCredentials_def providers_def)
  from a b c show ?thesis by blast
qed

text \<open>
  The constructor puts the providers of a composite argument in the place of that
  argument, in order, so a composite argument fails exactly when all its providers do,
  and succeeds with the token of its first provider that succeeds.
\<close>

lemma providers_MultiCredentials:
  "providers (MultiCredentials cs) = concat (map underlying cs)"
proof -
  have "(\<lambda>c. case c of multiCredentials m \<Rightarrow> m | _ \<Rightarrow> [c]) = underlying"
    by (rule ext) (simp add: underlying_def)
  then show ?thesis by (simp add: MultiCredentials_def providers_def)
qed

lemma Token_MultiCredentials:
  "Token (MultiCredentials cs) ctx = fst (multi_loop (providers (MultiCredentials cs)) ctx [] None 0)"
  by (simp add: MultiCredentials_def providers_def)

lemma underlying_empty: "(underlying c = []) = empty_composite c"
  by (cases c) (simp_all add: underlying_def empty_composite_def split: list.splits)

lemma multi_loop_fails_iff:
  "(snd (fst (multi_loop m ctx tok er n)) \<noteq> None) = (\<forall>p \<in> set m. token_fails ctx p)"
proof (induction m arbitrary: tok er n)
  case Nil
  then show ?case by simp
next
  case (Cons a m)
  obtain tk eo where a: "Token a ctx = (tk, eo)" by (cases "Token a ctx")
  show ?case
  proof (cases eo)
    case None
    then show ?thesis using a by (simp add: token_fails_def)
  next
    case (Some e)
    then show ?thesis using a Cons.IH [of tk "Some e" "Suc n"] by (simp add: token_fails_def)
  qed
qed

lemma composite_fails_iff:
  "token_fails ctx (multiCredentials m) = (\<forall>p \<in> set m. token_fails ctx p)"
  using multi_loop_fails_iff [of m ctx "[]" None 0] by (simp add: token_fails_def)

lemma underlying_fail:
  "token_fails ctx c \<Longrightarrow> \<forall>p \<in> set (underlying c). token_fails ctx p"
  by (cases c) (simp_all add: underlying_def composite_fails_iff)

lemma multi_loop_success_split:
  "fst (multi_loop m ctx tok er n) = (tk, None) \<Longrightarrow>
     \<exists>pre c post. m = pre @ c # post \<and> (\<forall>p \<in> set pre. token_fails ctx p)
        \<and> Token c ctx = (tk, None)"
proof (induction m arbitrary: tok er n)
  case Nil
  then show ?case by (simp split: if_splits)
next
  case (Cons a m)
  obtain tk' eo where a: "Token a ctx = (tk', eo)" by (cases "Token a ctx")
  show ?case
  proof (cases eo)
    case None
    with a Cons.prems have "Token a ctx = (tk, None)" by simp
    then have "a # m = [] @ a # m \<and> (\<forall>p \<in> set []. token_fails ctx p)
        \<and> Token a ctx = (tk, None)" by simp
    then show ?thesis by blast
  next
    case (Some e)
    with a Cons.prems have "fst (multi_loop m ctx tk' (Some e) (Suc n)) = (tk, None)" by simp
    from Cons.IH [OF this] obtain pre c post where
      m: "m = pre @ c # post" and f: "\<forall>p \<in> set pre. token_fails ctx p"
      and c: "Token c ctx = (tk, None)" by blast
    have "token_fails ctx a" using a Some by (simp add: token_fails_def)
    with m f c have "a # m = (a # pre) @ c # post \<and> (\<forall>p \<in> set (a # pre). token_fails ctx p)
        \<and> Token c ctx = (tk, None)" by simp
    then show ?thesis by blast
  qed
qed

lemma underlying_success:
  assumes "Token c ctx = (tk, None)"
  shows "\<exists>pre c' post. underlying c = pre @ c' # post \<and> (\<forall>p \<in> set pre. token_fails ctx p)
        \<and> Token c' ctx = (tk, None)"
proof (cases c)
  case (multiCredentials m)
  with assms have "fst (multi_loop m ctx [] None 0) = (tk, None)" by simp
  from multi_loop_success_split [OF this] show ?thesis
    using multiCredentials by (simp add: underlying_def)
next
  case (Func f)
  with assms have "underlying c = [] @ c # [] \<and> (\<forall>p \<in> set []. token_fails ctx p)
        \<and> Token c ctx = (tk, None)" by (simp add: underlying_def)
  then show ?thesis by blast
next
  case (AccessTokenCredentials a b)
  with assms have "underlying c = [] @ c # [] \<and> (\<forall>p \<in> set []. token_fails ctx p)
        \<and> Token c ctx = (tk, None)" by (simp add: underlying_def)
  then show ?thesis by blast
next
  case (anonymousCredentials a)
  with assms have "underlying c = [] @ c # [] \<and> (\<forall>p \<in> set []. token_fails ctx p)
        \<and> Token c ctx = (tk, None)" by (simp add: underlying_def)
  then show ?thesis by blast
qed

lemma MultiCredentials_first_success:
  assumes "\<forall>p \<in> set pre. token_fails ctx p" and "Token c ctx = (tk, None)"
  shows "Token (MultiCredentials (pre @ c # post)) ctx = (tk, None)
     \<and> consulted (providers (MultiCredentials (pre @ c # post))) ctx
         \<le> length (providers (MultiCredentials (pre @ [c])))"
proof -
  from underlying_success [OF assms(2)] obtain pre' c' post' where
    u: "underlying c = pre' @ c' # post'" and f': "\<forall>p \<in> set pre'. token_fails ctx p"
    and c': "Token c' ctx = (tk, None)" by blast
  let ?P = "concat (map underlying pre) @ pre'"
  have P: "\<forall>p \<in> set ?P. token_fails ctx p"
    using assms(1) f' underlying_fail by auto
  have F: "providers (MultiCredentials (pre @ c # post))
      = ?P @ c' # (post' @ concat (map underlying post))"
    using u by (simp add: providers_MultiCredentials)
  have run: "multi_loop (providers (MultiCredentials (pre @ c # post))) ctx [] None 0
      = ((tk, None), 0 + length ?P + 1)"
    unfolding F using P c' by (rule multi_loop_first_success)
  have "length ?P + 1 \<le> length (providers (MultiCredentials (pre @ [c])))"
    using u by (simp add: providers_MultiCredentials)
  with run show ?thesis
    by (simp add: Token_MultiCredentials consulted_def)
qed

lemma concat_underlying_filter:
  "concat (map underlying (filter (\<lambda>c. \<not> empty_composite c) cs)) = concat (map underlying cs)"
  by (induction cs) (simp_all add: underlying_empty)

lemma last_concat_underlying:
  assumes "g \<noteq> []" and "\<not> empty_composite (last g)"
  shows "concat (map underlying g) \<noteq> []
     \<and> last (concat (map underlying g)) = last (underlying (last g))"
proof -
  from assms(1) have g: "g = butlast g @ [last g]" by simp
  have ne: "underlying (last g) \<noteq> []" using assms(2) by (simp add: underlying_empty)
  have "concat (map underlying g) = concat (map underlying (butlast g)) @ underlying (last g)"
    by (subst g) simp
  with ne show ?thesis by simp
qed

lemma Token_last_underlying:
  assumes "token_fails ctx c" and "\<not> empty_composite c"
  shows "Token (last (underlying c)) ctx = Token c ctx"
proof (cases c)
  case (multiCredentials m)
  with assms(2) have ne: "m \<noteq> []" by (auto simp: empty_composite_def)
  from assms(1) multiCredentials have "\<forall>p \<in> set m. token_fails ctx p"
    by (simp add: composite_fails_iff)
  from multi_loop_all_fail [OF this ne, of "[]" None 0] show ?thesis
    using multiCredentials by (simp add: underlying_def)
qed (simp_all add: underlying_def)

lemma MultiCredentials_all_fail:
  assumes "\<forall>p \<in> set cs. token_fails ctx p"
  shows "Token (MultiCredentials cs) ctx
       = (case filter (\<lambda>c. \<not> empty_composite c) cs of
            [] \<Rightarrow> ([], Some ErrCredentialsNoCredentials)
          | x # xs \<Rightarrow> Token (last (x # xs)) ctx)
     \<and> snd (Token (MultiCredentials cs) ctx) \<noteq> None
     \<and> consulted (providers (MultiCredentials cs)) ctx = length (providers (MultiCredentials cs))"
proof -
  let ?g = "filter (\<lambda>c. \<not> empty_composite c) cs"
  let ?F = "providers (MultiCredentials cs)"
  have F: "?F = concat (map underlying ?g)"
    by (simp add: providers_MultiCredentials concat_underlying_filter)
  have fail: "\<forall>p \<in> set ?F. token_fails ctx p"
    using assms underlying_fail by (auto simp: providers_MultiCredentials)
  show ?thesis
  proof (cases "?g = []")
    case True
    with F have "?F = []" by simp
    then show ?thesis using True by (simp add: Token_MultiCredentials consulted_def)
  next
    case False
    then have lg: "last ?g \<in> set ?g" by (rule last_in_set)
    then have ne: "\<not> empty_composite (last ?g)" and lf: "token_fails ctx (last ?g)"
      using assms by auto
    from last_concat_underlying [OF False ne] F have
      Fne: "?F \<noteq> []" and Fl: "last ?F = last (underlying (last ?g))" by simp_all
    from multi_loop_all_fail [OF fail Fne, of "[]" None 0] have
      run: "multi_loop ?F ctx [] None 0 = (Token (last ?F) ctx, length ?F)" by simp
    have tok: "Token (MultiCredentials cs) ctx = Token (last ?g) ctx"
      using run Fl Token_last_underlying [OF lf ne] by (simp add: Token_MultiCredentials)
    obtain x xs where g: "?g = x # xs" using False by (cases ?g) auto
    have "snd (Token (last ?g) ctx) \<noteq> None" using lf by (simp add: token_fails_def)
    then show ?thesis using tok run g by (simp add: consulted_def)
  qed
qed

lemma filter_last_kept:
  "cs \<noteq> [] \<Longrightarrow> P (last cs) \<Longrightarrow> filter P cs \<noteq> [] \<and> last (filter P cs) = last cs"
  by (induction cs) (auto split: if_splits)

text \<open>
  Claim C10, as the code has it, for the composite that \<open>MultiCredentials\<close> builds
  from the providers it is given. When every provider of \<open>pre\<close> fails and \<open>c\<close>
  succeeds with token \<open>tk\<close>, \<open>Token\<close> of \<open>MultiCredentials (pre @ c # post)\<close>
  returns \<open>tk\<close> with no error and consults no more providers than \<open>pre\<close> and \<open>c\<close>
  contribute, hence none that \<open>post\<close> contributes. When every provider fails,
  \<open>Token\<close> fails after consulting all, and returns what the last provider that is
  not an empty composite returned, \<open>ErrCredentialsNoCredentials\<close> if there is
  none; so it returns what the last provider returned whenever that one is not an empty
  composite. Built from no provider, it returns \<open>ErrCredentialsNoCredentials\<close>.
\<close>

theorem MultiCredentials_Token:
  "((\<forall>p \<in> set pre. token_fails ctx p) \<and> Token c ctx = (tk, None) \<longrightarrow>
      Token (MultiCredentials (pre @ c # post)) ctx = (tk, None)
      \<and> consulted (providers (MultiCredentials (pre @ c # post))) ctx
          \<le> length (providers (MultiCredentials (pre @ [c]))))
   \<and> ((\<forall>p \<in> set cs. token_fails ctx p) \<longrightarrow>
      Token (MultiCredentials cs) ctx
        = (case filter (\<lambda>c. \<not> empty_composite c) cs of
             [] \<Rightarrow> ([], Some ErrCredentialsNoCredentials)
           | x # xs \<Rightarrow> Token (last (x # xs)) ctx)
      \<and> (cs \<noteq> [] \<and> \<not> empty_composite (last cs) \<longrightarrow>
           Token (MultiCredentials cs) ctx = Token (last cs) ctx)
      \<and> snd (Token (MultiCredentials cs) ctx) \<noteq> None
      \<and> consulted (providers (MultiCredentials cs)) ctx
          = length (providers (MultiCredentials cs)))
   \<and> Token (MultiCredentials []) ctx = ([], Some ErrCredentialsNoCredentials)"
proof (intro conjI impI)
  assume "(\<forall>p \<in> set pre. token_fails ctx p) \<and> Token c ctx = (tk, None)"
  then have a: "\<forall>p \<in> set pre. token_fails ctx p" and b: "Token c ctx = (tk, None)" by simp_all
  note fs = MultiCredentials_first_success [OF a b, of post]
  from fs show "Token (MultiCredentials (pre @ c # post)) ctx = (tk, None)" by (rule conjunct1)
  from fs show "consulted (providers (MultiCredentials (pre @ c # post))) ctx
          \<le> length (providers (MultiCredentials (pre @ [c])))" by (rule conjunct2)
next
  assume f: "\<forall>p \<in> set cs. token_fails ctx p"
  note af = MultiCredentials_all_fail [OF f]
  from af show g: "Token (MultiCredentials cs) ctx
        = (case filter (\<lambda>c. \<not> empty_composite c) cs of
             [] \<Rightarrow> ([], Some ErrCredentialsNoCredentials)
           | x # xs \<Rightarrow> Token (last (x # xs)) ctx)" by (rule conjunct1)
  from af show "snd (Token (MultiCredentials cs) ctx) \<noteq> None" by blast
  from af show "consulted (providers (MultiCredentials cs)) ctx
          = length (providers (MultiCredentials cs))" by blast
  assume l: "cs \<noteq> [] \<and> \<not> empty_composite (last cs)"
  from filter_last_kept [of cs "\<lambda>c. \<not> empty_composite c"] l
  have "filter (\<lambda>c. \<not> empty_composite c) cs \<noteq> []"
    and "last (filter (\<lambda>c. \<not> empty_composite c) cs) = last cs" by simp_all
  with g show "Token (MultiCredentials cs) ctx = Token (last cs) ctx"
    by (cases "filter (\<lambda>c. \<not> empty_composite c) cs") simp_all
next
  show "Token (MultiCredentials []) ctx = ([], Some ErrCredentialsNoCredentials)"
    by (simp add: MultiCredentials_def)
qed

theorem MultiCredentials_Token_witness:
  "token_fails Background (Func (\<lambda>_. (''x'', Some (CredError ''down''))))
   \<and> Token (MultiCredentials [AccessTokenCredentials ''t1'' ''env'']) Background = (''t1'', None)
   \<and> Token (MultiCredentials
        ([Func (\<lambda>_. (''x'', Some (CredError ''down'')))]
          @ MultiCredentials [AccessTokenCredentials ''t1'' ''env'']
          # [anonymousCredentials ''a''])) Background
      = (''t1'', None)
   \<and> consulted (providers (MultiCredentials
        ([Func (\<lambda>_. (''x'', Some (CredError ''down'')))]
          @ MultiCredentials [AccessTokenCredentials ''t1'' ''env'']
          # [anonymousCredentials ''a'']))) Background = 2
   \<and> token_fails Background (Func (\<lambda>_. (''y'', Some (CredError ''denied''))))
   \<and> [Func (\<lambda>_. (''x'', Some (CredError ''down''))),
       Func (\<lambda>_. (''y'', Some (CredError ''denied'')))] \<noteq> []
   \<and> \<not> empty_composite (Func (\<lambda>_. (''y'', Some (CredError ''denied''))))
   \<and> Token (MultiCredentials
        [Func (\<lambda>_. (''x'', Some (CredError ''down''))),
         Func (\<lambda>_. (''y'', Some (CredError ''denied'')))]) Background
      = (''y'', Some (CredError ''denied''))
   \<and> Token (MultiCredentials []) Background = ([], Some ErrCredentialsNoCredentials)"
  using MultiCredentials_Token
    [of "[Func (\<lambda>_. (''x'', Some (CredError ''down'')))]" Background
        "MultiCredentials [AccessTokenCredentials ''t1'' ''env'']" "''t1''"
        "[anonymousCredentials ''a'']"
        "[Func (\<lambda>_. (''x'', Some (CredError ''down''))),
          Func (\<lambda>_. (''y'', Some (CredError ''denied'')))]"]
  by (simp add: token_fails_def MultiCredentials_def providers_def consulted_def
      empty_composite_def)

text \<open>
  The claim as stated fails when the last provider is an empty composite: of the two
  providers, both fail, the last with \<open>ErrCredentialsNoCredentials\<close>; the constructor
  drops it, and \<open>Token\<close> returns the error of the first.
\<close>

theorem MultiCredentials_empty_composite_last_counterexample:
  "token_fails Background (Func (\<lambda>_. (''x'', Some (CredError ''down''))))
   \<and> token_fails Background (MultiCredentials [])
   \<and> Token (last [Func (\<lambda>_. (''x'', Some (CredError ''down''))), MultiCredentials []])
        Background = ([], Some ErrCredentialsNoCredentials)
   \<and> Token (MultiCredentials
        [Func (\<lambda>_. (''x'', Some (CredError ''down''))), MultiCredentials []]) Background
      = (''x'', Some (CredError ''down''))"
  by (simp add: token_fails_def MultiCredentials_def)

section \<open>Properties of the scanner: recorded errors\<close>

text \<open>The definitions that evaluate a scan of a concrete row.\<close>

lemmas scanner_defs =
  bnd_def reset_def setColumnIndexes_def new_scanner_def NextRow_def HasNextRow_def
  Scan_def ScanWithDefaults_def scan_def count_mismatch_def ColumnCount_def seekItemByID_def
  isCurrentTypeOptional_def current_def isEmpty_def emptyItem_def isOptional_def
  scanOptional_def scanOptional_ptr_def scanOptional_default_def isNull_def currentValue_def
  currentType_def assign_new_def assign_from_def assign_def stack_reset_def setDefaultValue_def
  unwrap_def unwrapValue_def set_scanItem_t_def set_scanItem_v_def scanRequired_def errorf_def
  Err_def unexpected_def valueTypeError_def path_def getType_def overflowError_def
  int32_def uint32_def int8_def int16_def uint8_def uint16_def
  trySetByteArray_def set_byte_array_def write_array_def nonnil_ptr_def zero_elem_def
  setByte_def GetTypeId_def unknown_type_def is_ptr_ptr_def
  result_set_def row_of_def cell_def primitive_type_def optional_type_def

lemma NextRow_sticky: "err s = Some e \<Longrightarrow> NextRow s = (s, False)"
  by (simp add: NextRow_def HasNextRow_def)

lemma scan_sticky: "err s = Some e \<Longrightarrow> scan tu s values st = Ret (s, st, Some e)"
  by (simp add: scan_def)

lemma run_sticky:
  "err s = Some e \<Longrightarrow> list_all not_reset cs \<Longrightarrow>
     run tu cs s st = Ret (map (sticky_output e st) cs)"
proof (induction cs arbitrary: s)
  case Nil
  then show ?case by simp
next
  case (Cons c cs)
  from Cons.prems have rest: "list_all not_reset cs" by simp
  show ?case
  proof (cases c)
    case (CallReset rs names)
    with Cons.prems show ?thesis by simp
  next
    case CallNextRow
    with Cons.IH [OF Cons.prems(1) rest] Cons.prems(1) show ?thesis
      by (simp add: NextRow_sticky bnd_def)
  next
    case (CallScan vs)
    have "err (s\<lparr>defaultValueForOptional := False\<rparr>) = Some e"
      using Cons.prems(1) by simp
    from Cons.IH [OF this rest] this CallScan show ?thesis
      by (simp add: Scan_def scan_sticky bnd_def)
  next
    case (CallScanWithDefaults vs)
    have "err (s\<lparr>defaultValueForOptional := True\<rparr>) = Some e"
      using Cons.prems(1) by simp
    from Cons.IH [OF this rest] this CallScanWithDefaults show ?thesis
      by (simp add: ScanWithDefaults_def scan_sticky bnd_def)
  next
    case CallErr
    with Cons.IH [OF Cons.prems(1) rest] Cons.prems(1) show ?thesis
      by (simp add: Err_def bnd_def)
  next
    case (CallRead a)
    with Cons.IH [OF Cons.prems(1) rest] show ?thesis
      by (simp add: bnd_def)
  qed
qed

text \<open>
  Claim C1. In a scanner state that holds an error \<open>e\<close>: \<open>NextRow\<close> returns false
  and changes nothing; \<open>Scan\<close> and \<open>ScanWithDefaults\<close> return \<open>e\<close> at once, with the
  caller's variables as they were and the scanner changed only in the flag the call
  sets on entry; \<open>errorf\<close> leaves the scanner, hence the stored error, as it is;
  \<open>Err\<close> returns \<open>e\<close>; and along every later sequence of \<open>NextRow\<close>, \<open>Scan\<close>,
  \<open>ScanWithDefaults\<close> and \<open>Err\<close> calls each \<open>NextRow\<close> returns false, each scan
  and each \<open>Err\<close> returns \<open>e\<close>, and each read of a variable of the caller finds what it
  held at the start.
\<close>

theorem scanner_error_sticky:
  "err s = Some e \<and> list_all not_reset cs \<longrightarrow>
     NextRow s = (s, False)
     \<and> Scan tu s values st = Ret (s\<lparr>defaultValueForOptional := False\<rparr>, st, Some e)
     \<and> ScanWithDefaults tu s values st = Ret (s\<lparr>defaultValueForOptional := True\<rparr>, st, Some e)
     \<and> errorf s f args = s
     \<and> Err s = Some e
     \<and> run tu cs s st = Ret (map (sticky_output e st) cs)"
  by (simp add: NextRow_sticky Scan_def ScanWithDefaults_def scan_sticky errorf_def Err_def
      run_sticky)

theorem scanner_error_sticky_witness:
  "err (fst (Truncated new_scanner)) = Some (Errorf ''there are no sets in the scanner'' [])
   \<and> list_all not_reset
        [CallNextRow, CallScan [Ptr T_int8 (Some 0)], CallRead 0,
         CallScanWithDefaults [Ptr T_int8 (Some 0)], CallRead 0, CallErr]
   \<and> NextRow (fst (Truncated new_scanner)) = (fst (Truncated new_scanner), False)
   \<and> errorf (fst (Truncated new_scanner)) ''no column %q'' [ArgString ''x'']
       = fst (Truncated new_scanner)
   \<and> Err (fst (Truncated new_scanner))
       = Some (Errorf ''there are no sets in the scanner'' [])
   \<and> run tz_ok
        [CallNextRow, CallScan [Ptr T_int8 (Some 0)], CallRead 0,
         CallScanWithDefaults [Ptr T_int8 (Some 0)], CallRead 0, CallErr]
        (fst (Truncated new_scanner)) (Map.empty(0 \<mapsto> GInt8 42))
       = Ret [OutBool False,
              OutError (Some (Errorf ''there are no sets in the scanner'' [])),
              OutVar (Some (GInt8 42)),
              OutError (Some (Errorf ''there are no sets in the scanner'' [])),
              OutVar (Some (GInt8 42)),
              OutError (Some (Errorf ''there are no sets in the scanner'' []))]"
  using scanner_error_sticky
    [of "fst (Truncated new_scanner)" "Errorf ''there are no sets in the scanner'' []"
        "[CallNextRow, CallScan [Ptr T_int8 (Some 0)], CallRead 0,
          CallScanWithDefaults [Ptr T_int8 (Some 0)], CallRead 0, CallErr]"
        tz_ok "[]" "Map.empty(0 \<mapsto> GInt8 42)" "''no column %q''" "[ArgString ''x'']"]
  by (simp add: Truncated_def scanner_defs)

section \<open>Properties of the scanner: the scenarios\<close>

text \<open>
  Claim C2. On the result set with the one column \<open>Optional<Uint32>\<close> and the rows
  5, NULL, 7, a client that calls \<open>NextRow\<close>, \<open>Scan(&p)\<close> with \<open>p\<close> a
  \<open>*uint32\<close>, reads \<open>p\<close> and calls \<open>Err\<close>, three times over, finds \<open>p\<close>
  pointing to 5, then nil, then pointing to 7, no error at any point, and a fourth
  \<open>NextRow\<close> returns false; with \<open>ScanWithDefaults(&u)\<close> and \<open>u\<close> a
  \<open>uint32\<close> it finds 5, 0, 7. This holds whatever the variables held before.
\<close>

theorem scan_optional_uint32_rows:
  "run tu
     [CallReset (Some (result_set (optional_type (primitive_type UINT32))
        [Value_Uint32Value 5, Value_NullFlagValue, Value_Uint32Value 7])) None,
      CallNextRow, CallScan [PtrPtr T_uint32 (Some p)], CallRead p, CallErr,
      CallNextRow, CallScan [PtrPtr T_uint32 (Some p)], CallRead p, CallErr,
      CallNextRow, CallScan [PtrPtr T_uint32 (Some p)], CallRead p, CallErr,
      CallNextRow] new_scanner st
   = Ret [OutBool True, OutError None, OutVar (Some (GPtr (Some (GUint32 5)))), OutError None,
          OutBool True, OutError None, OutVar (Some (GPtr None)), OutError None,
          OutBool True, OutError None, OutVar (Some (GPtr (Some (GUint32 7)))), OutError None,
          OutBool False]
   \<and> run tu
     [CallReset (Some (result_set (optional_type (primitive_type UINT32))
        [Value_Uint32Value 5, Value_NullFlagValue, Value_Uint32Value 7])) None,
      CallNextRow, CallScanWithDefaults [Ptr T_uint32 (Some u)], CallRead u, CallErr,
      CallNextRow, CallScanWithDefaults [Ptr T_uint32 (Some u)], CallRead u, CallErr,
      CallNextRow, CallScanWithDefaults [Ptr T_uint32 (Some u)], CallRead u, CallErr,
      CallNextRow] new_scanner st
   = Ret [OutBool True, OutError None, OutVar (Some (GUint32 5)), OutError None,
          OutBool True, OutError None, OutVar (Some (GUint32 0)), OutError None,
          OutBool True, OutError None, OutVar (Some (GUint32 7)), OutError None,
          OutBool False]"
  by (simp add: scanner_defs)

section \<open>Properties of the scanner: one destination on a fresh row\<close>

lemma on_cellE:
  assumes "on_cell s t k"
  obtains rs r c cs x xs where "set' s = Some rs" "row s = Some r" "Columns rs = c # cs"
    "Items r = Some x # xs" "Type c = t" "value_oneof x = Some k" "err s = None"
    "nextItem s = 0" "columnIndexes s = None"
  using assms
  by (auto simp: on_cell_def split: option.splits list.splits)

lemma seek_on_cell:
  assumes "on_cell s t k"
  shows "\<exists>n x. seekItemByID s 0 = Ret (at_item s n t (Some x)) \<and> value_oneof x = Some k"
proof -
  from assms obtain rs r c cs x xs where h: "set' s = Some rs" "row s = Some r"
    "Columns rs = c # cs" "Items r = Some x # xs" "Type c = t" "value_oneof x = Some k"
    "err s = None" by (rule on_cellE)
  have "seekItemByID s 0 = Ret (at_item s (Name c) t (Some x))"
    using h by (simp add: seekItemByID_def at_item_def)
  with h(6) show ?thesis by blast
qed

lemma at_item_fields [simp]:
  "err (at_item s n t x) = err s"
  "nextItem (at_item s n t x) = nextItem s"
  "columnIndexes (at_item s n t x) = columnIndexes s"
  "defaultValueForOptional (at_item s n t x) = defaultValueForOptional s"
  "set' (at_item s n t x) = set' s"
  by (simp_all add: at_item_def)

lemma at_item_current [simp]:
  "current (stack (at_item s n t (Some x)))
     = Ret (scanItem (stack (at_item s n t (Some x))))"
  "item_t (scanItem (stack (at_item s n t y))) = t"
  "item_v (scanItem (stack (at_item s n t y))) = y"
  "item_name (scanItem (stack (at_item s n t y))) = n"
  by (simp_all add: at_item_def current_def isEmpty_def)

lemma at_item_currentValue [simp]:
  "currentValue (stack (at_item s n t (Some x))) = Ret (value_oneof x)"
  by (simp add: currentValue_def bnd_def)

lemma at_item_isCurrentTypeOptional [simp]:
  "isCurrentTypeOptional (at_item s n t (Some x)) = Ret (isOptional t)"
  by (simp add: isCurrentTypeOptional_def bnd_def)

lemma bnd_Ret [simp]: "bnd (Ret x) f = f x"
  by (simp add: bnd_def)

lemma bnd_Panic [simp]: "bnd (Panic m) f = Panic m"
  by (simp add: bnd_def)

lemma scan_single_required:
  assumes "on_cell s t k" and "\<not> isOptional t"
  shows "\<exists>n x. value_oneof x = Some k \<and>
     scan tu s [v] st =
        bnd (scanRequired tu (at_item s n t (Some x)) v st)
          (\<lambda>(s2, st2). Ret (s2\<lparr>nextItem := nextItem s2 + 1\<rparr>, st2, err s2))"
proof -
  from seek_on_cell [OF assms(1)] obtain n x where
    sk: "seekItemByID s 0 = Ret (at_item s n t (Some x))" and k: "value_oneof x = Some k"
    by blast
  from assms(1) obtain rs c cs where h: "set' s = Some rs" "Columns rs = c # cs"
    "err s = None" "nextItem s = 0" "columnIndexes s = None" by (rule on_cellE)
  have "scan tu s [v] st =
        bnd (scanRequired tu (at_item s n t (Some x)) v st)
          (\<lambda>(s2, st2). Ret (s2\<lparr>nextItem := nextItem s2 + 1\<rparr>, st2, err s2))"
    using h sk assms(2)
    by (simp add: scan_def count_mismatch_def ColumnCount_def bnd_def
        split: res.splits prod.splits)
  with k show ?thesis by blast
qed


lemma on_cell_flag [simp]:
  "on_cell (s\<lparr>defaultValueForOptional := b\<rparr>) t k = on_cell s t k"
  by (simp add: on_cell_def)

lemma run_scan_single:
  assumes "on_cell s t k" and "\<not> isOptional t"
    and step: "\<And>s1. err s1 = None \<Longrightarrow> currentValue (stack s1) = Ret (Some k) \<Longrightarrow>
       \<exists>s2. scanRequired tu s1 v st = Ret (s2, st2) \<and> err s2 = e"
  shows "run tu [CallScan [v], CallRead a, CallErr] s st
           = Ret [OutError e, OutVar (st2 a), OutError e]"
proof -
  have oc: "on_cell (s\<lparr>defaultValueForOptional := False\<rparr>) t k"
    using assms(1) by simp
  from scan_single_required [OF oc assms(2), of tu v st] obtain n x where
    k: "value_oneof x = Some k" and
    sc: "Scan tu s [v] st =
        bnd (scanRequired tu (at_item (s\<lparr>defaultValueForOptional := False\<rparr>) n t (Some x)) v st)
          (\<lambda>(s2, st2). Ret (s2\<lparr>nextItem := nextItem s2 + 1\<rparr>, st2, err s2))"
    unfolding Scan_def by blast
  have "err (at_item (s\<lparr>defaultValueForOptional := False\<rparr>) n t (Some x)) = None"
    using assms(1) by (simp add: on_cell_def)
  moreover have "currentValue (stack (at_item (s\<lparr>defaultValueForOptional := False\<rparr>) n t (Some x)))
      = Ret (Some k)"
    using k by simp
  ultimately obtain s2 where
    "scanRequired tu (at_item (s\<lparr>defaultValueForOptional := False\<rparr>) n t (Some x)) v st
       = Ret (s2, st2)" and "err s2 = e"
    using step by blast
  with sc have "Scan tu s [v] st = Ret (s2\<lparr>nextItem := nextItem s2 + 1\<rparr>, st2, e)"
    by simp
  moreover have "Err (s2\<lparr>nextItem := nextItem s2 + 1\<rparr>) = e"
    using \<open>err s2 = e\<close> by (simp add: Err_def)
  ultimately show ?thesis by simp
qed

lemma scanRequired_int8:
  assumes "err s = None" and "currentValue (stack s) = Ret (Some (Value_Int32Value d))"
  shows "\<exists>s2. scanRequired tu s (Ptr T_int8 (Some a)) st
        = Ret (s2, st(a \<mapsto> GInt8 (if - 128 \<le> sint d \<and> sint d \<le> 127 then scast d else 0)))
      \<and> err s2 = (if - 128 \<le> sint d \<and> sint d \<le> 127 then None
           else Some (Errorf ''overflow error: %d overflows capacity of %t''
                  [ArgInt (sint d), ArgInt 0]))"
  using assms
  by (simp add: scanRequired_def assign_from_def int8_def int32_def overflowError_def
      errorf_def assign_def not_le)










text \<open>
  Claim C3, as the code has it. With the scanner on a fresh row whose first column has
  type \<open>Int32\<close> and whose first cell holds 200, \<open>Scan(&x)\<close> with \<open>x\<close> an
  \<open>int8\<close> returns the overflow error for 200, \<open>Err\<close> returns it too, and \<open>x\<close>
  holds 0 afterwards: \<open>int8()\<close> returns the zero value of its named result when the
  range check fails, and \<open>scanRequired\<close> stores whatever the decoder returns.
\<close>

theorem int8_overflow_zeroes_destination:
  "on_cell s (primitive_type INT32) (Value_Int32Value 200) \<longrightarrow>
     run tu [CallScan [Ptr T_int8 (Some x)], CallRead x, CallErr] s st
       = Ret [OutError (Some (overflow 200)), OutVar (Some (GInt8 0)),
              OutError (Some (overflow 200))]"
proof
  assume h: "on_cell s (primitive_type INT32) (Value_Int32Value 200)"
  have n: "\<not> isOptional (primitive_type INT32)"
    by (simp add: isOptional_def primitive_type_def)
  show "run tu [CallScan [Ptr T_int8 (Some x)], CallRead x, CallErr] s st
       = Ret [OutError (Some (overflow 200)), OutVar (Some (GInt8 0)),
              OutError (Some (overflow 200))]"
    using run_scan_single [OF h n, where v = "Ptr T_int8 (Some x)" and tu = tu and st = st
        and a = x, OF scanRequired_int8]
    by (simp add: overflow_def)
qed

theorem int8_overflow_zeroes_destination_witness:
  "on_cell (on_first_row (result_set (primitive_type INT32) [Value_Int32Value 200]))
     (primitive_type INT32) (Value_Int32Value 200)
   \<and> run tz_ok [CallScan [Ptr T_int8 (Some 0)], CallRead 0, CallErr]
        (on_first_row (result_set (primitive_type INT32) [Value_Int32Value 200]))
        (Map.empty(0 \<mapsto> GInt8 42))
      = Ret [OutError (Some (overflow 200)), OutVar (Some (GInt8 0)),
             OutError (Some (overflow 200))]"
  using int8_overflow_zeroes_destination
    [of "on_first_row (result_set (primitive_type INT32) [Value_Int32Value 200])" tz_ok 0
        "Map.empty(0 \<mapsto> GInt8 42)"]
  by (simp add: on_first_row_def on_cell_def overflow_def scanner_defs)

text \<open>
  The claim as stated fails: \<open>x\<close> holds 42 before the scan of the cell 200 and 0
  after it.
\<close>

theorem int8_overflow_unchanged_counterexample:
  "run tz_ok
     [CallReset (Some (result_set (primitive_type INT32) [Value_Int32Value 200])) None,
      CallNextRow, CallRead 0, CallScan [Ptr T_int8 (Some 0)], CallRead 0, CallErr]
     new_scanner (Map.empty(0 \<mapsto> GInt8 42))
   = Ret [OutBool True, OutVar (Some (GInt8 42)), OutError (Some (overflow 200)),
          OutVar (Some (GInt8 0)), OutError (Some (overflow 200))]"
  by (simp add: overflow_def scanner_defs)

section \<open>Properties of the scanner: a second scan of a row\<close>

text \<open>
  Decoding and writing a destination never moves the cursor: whatever \<open>scanRequired\<close>
  and \<open>scanOptional\<close> return, the result set, the row, the two counters, the column
  selection and the mode are those of the state they started from.
\<close>

lemma errorf_fields [simp]:
  "set' (errorf s f args) = set' s" "row (errorf s f args) = row s"
  "nextRow (errorf s f args) = nextRow s" "nextItem (errorf s f args) = nextItem s"
  "columnIndexes (errorf s f args) = columnIndexes s"
  "defaultValueForOptional (errorf s f args) = defaultValueForOptional s"
  by (simp_all add: errorf_def)


















lemma overflowError_fields [simp]:
  "set' (overflowError s i n) = set' s" "row (overflowError s i n) = row s"
  "nextRow (overflowError s i n) = nextRow s" "nextItem (overflowError s i n) = nextItem s"
  "columnIndexes (overflowError s i n) = columnIndexes s"
  "defaultValueForOptional (overflowError s i n) = defaultValueForOptional s"
  by (simp_all add: overflowError_def)






lemma set_scanItem_fields [simp]:
  "set' (set_scanItem_v s x) = set' s" "row (set_scanItem_v s x) = row s"
  "nextRow (set_scanItem_v s x) = nextRow s" "nextItem (set_scanItem_v s x) = nextItem s"
  "columnIndexes (set_scanItem_v s x) = columnIndexes s"
  "defaultValueForOptional (set_scanItem_v s x) = defaultValueForOptional s"
  "set' (set_scanItem_t s t) = set' s" "row (set_scanItem_t s t) = row s"
  "nextRow (set_scanItem_t s t) = nextRow s" "nextItem (set_scanItem_t s t) = nextItem s"
  "columnIndexes (set_scanItem_t s t) = columnIndexes s"
  "defaultValueForOptional (set_scanItem_t s t) = defaultValueForOptional s"
  by (simp_all add: set_scanItem_v_def set_scanItem_t_def)


















lemma call_sql_Scan_fields [simp]:
  "set' (call_sql_Scan f s src) = set' s" "row (call_sql_Scan f s src) = row s"
  "nextRow (call_sql_Scan f s src) = nextRow s" "nextItem (call_sql_Scan f s src) = nextItem s"
  "columnIndexes (call_sql_Scan f s src) = columnIndexes s"
  "defaultValueForOptional (call_sql_Scan f s src) = defaultValueForOptional s"
  by (simp_all add: call_sql_Scan_def split: option.splits)

lemma call_UnmarshalYDB_fields [simp]:
  "set' (call_UnmarshalYDB f s) = set' s" "row (call_UnmarshalYDB f s) = row s"
  "nextRow (call_UnmarshalYDB f s) = nextRow s" "nextItem (call_UnmarshalYDB f s) = nextItem s"
  "columnIndexes (call_UnmarshalYDB f s) = columnIndexes s"
  "defaultValueForOptional (call_UnmarshalYDB f s) = defaultValueForOptional s"
  by (simp_all add: call_UnmarshalYDB_def Let_def split: option.splits prod.splits)

lemma unknown_type_fields [simp]:
  "set' (unknown_type s v) = set' s" "row (unknown_type s v) = row s"
  "nextRow (unknown_type s v) = nextRow s" "nextItem (unknown_type s v) = nextItem s"
  "columnIndexes (unknown_type s v) = columnIndexes s"
  "defaultValueForOptional (unknown_type s v) = defaultValueForOptional s"
  by (simp_all add: unknown_type_def)

















section \<open>Properties of the scanner: an optional column in \<open>Scan\<close> mode\<close>

lemma scan_single_optional:
  assumes "on_cell s t k" and "isOptional t"
  shows "\<exists>n x. value_oneof x = Some k \<and>
     scan tu s [v] st =
        bnd (scanOptional tu (at_item s n t (Some x)) v st)
          (\<lambda>(s2, st2). Ret (s2\<lparr>nextItem := nextItem s2 + 1\<rparr>, st2, err s2))"
proof -
  from seek_on_cell [OF assms(1)] obtain n x where
    sk: "seekItemByID s 0 = Ret (at_item s n t (Some x))" and k: "value_oneof x = Some k"
    by blast
  from assms(1) obtain rs c cs where h: "set' s = Some rs" "Columns rs = c # cs"
    "err s = None" "nextItem s = 0" "columnIndexes s = None" by (rule on_cellE)
  have "scan tu s [v] st =
        bnd (scanOptional tu (at_item s n t (Some x)) v st)
          (\<lambda>(s2, st2). Ret (s2\<lparr>nextItem := nextItem s2 + 1\<rparr>, st2, err s2))"
    using h sk assms(2)
    by (simp add: scan_def count_mismatch_def ColumnCount_def bnd_def
        split: res.splits prod.splits)
  with k show ?thesis by blast
qed

lemma run_scan_single_optional:
  assumes "on_cell s t k" and "isOptional t"
    and step: "\<And>n x. value_oneof x = Some k \<Longrightarrow>
       \<exists>s2 e. scanOptional tu (at_item (s\<lparr>defaultValueForOptional := False\<rparr>) n t (Some x)) v st
              = Ret (s2, st2) \<and> err s2 = e \<and> P e"
  shows "\<exists>e. run tu [CallScan [v], CallRead a, CallErr] s st
           = Ret [OutError e, OutVar (st2 a), OutError e] \<and> P e"
proof -
  have oc: "on_cell (s\<lparr>defaultValueForOptional := False\<rparr>) t k"
    using assms(1) by simp
  from scan_single_optional [OF oc assms(2), of tu v st] obtain n x where
    k: "value_oneof x = Some k" and
    sc: "Scan tu s [v] st =
        bnd (scanOptional tu (at_item (s\<lparr>defaultValueForOptional := False\<rparr>) n t (Some x)) v st)
          (\<lambda>(s2, st2). Ret (s2\<lparr>nextItem := nextItem s2 + 1\<rparr>, st2, err s2))"
    unfolding Scan_def by blast
  from step [OF k] obtain s2 e where
    "scanOptional tu (at_item (s\<lparr>defaultValueForOptional := False\<rparr>) n t (Some x)) v st
       = Ret (s2, st2)" and "err s2 = e" and "P e"
    by blast
  with sc have "Scan tu s [v] st = Ret (s2\<lparr>nextItem := nextItem s2 + 1\<rparr>, st2, e)"
    by simp
  moreover have "Err (s2\<lparr>nextItem := nextItem s2 + 1\<rparr>) = e"
    using \<open>err s2 = e\<close> by (simp add: Err_def)
  ultimately have "run tu [CallScan [v], CallRead a, CallErr] s st
           = Ret [OutError e, OutVar (st2 a), OutError e]" by simp
  with \<open>P e\<close> show ?thesis by blast
qed

lemma at_item_currentType [simp]:
  "currentType (stack (at_item s n (optional_type t) (Some x))) = Ret (Some (Type_OptionalType t))"
  by (simp add: currentType_def optional_type_def)

lemma at_item_path [simp]:
  "path (at_item s n t (Some x)) = Ret n"
  "getType (at_item s n t (Some x)) = Ret (ArgType t)"
  by (simp_all add: path_def getType_def isEmpty_def)

lemma unwrap_at_item:
  assumes "err s = None"
  shows "\<exists>s1. unwrap (at_item s n (optional_type t) (Some x)) = Ret s1 \<and>
     defaultValueForOptional s1 = defaultValueForOptional s \<and>
     (if isOptional t then True else s1 = at_item s n t (Some x))"
proof (cases "isOptional t")
  case False
  then show ?thesis using assms
    by (simp add: unwrap_def) (simp add: set_scanItem_t_def at_item_def)
next
  case True
  have "\<exists>s1 y. unwrapValue (at_item s n (optional_type t) (Some x)) = Ret (s1, y)
      \<and> defaultValueForOptional s1 = defaultValueForOptional s"
    by (cases "value_oneof x")
      (auto simp: unwrapValue_def unexpected_def valueTypeError_def errorf_def
        split: value_kind.splits)
  then show ?thesis using assms True
    by (auto simp: unwrap_def set_scanItem_t_def set_scanItem_v_def)
qed

lemma scanOptional_single_pointer:
  assumes "err s = None" and "\<not> defaultValueForOptional s"
    and "T \<noteq> T_array16" and "T \<noteq> T_Value"
  shows "\<exists>s2 e. scanOptional tu (at_item s n (optional_type t) (Some x)) (Ptr T p) st = Ret (s2, st)
     \<and> err s2 = Some e \<and> (\<not> isOptional t \<longrightarrow> e = not_optional_error T)"
proof -
  from unwrap_at_item [OF assms(1), of n t x] obtain s1 where
    u: "unwrap (at_item s n (optional_type t) (Some x)) = Ret s1"
    and s1: "if isOptional t then True else s1 = at_item s n t (Some x)" by blast
  have sh: "shape_of (Ptr T p) = ShNone"
    using assms(3) by (cases p) simp_all
  have "scanOptional tu (at_item s n (optional_type t) (Some x)) (Ptr T p) st
      = Ret (errorf s1 ''scan row failed: types %T is not optional! use double pointer or sql.Scanner.''
                [ArgGoType (TyPtr T)], st)"
    using assms(2,4) u sh
    by (simp add: scanOptional_def scanOptional_default_def trySetByteArray_def is_ptr_ptr_def)
  moreover have "\<exists>e. err (errorf s1 ''scan row failed: types %T is not optional! use double pointer or sql.Scanner.''
                [ArgGoType (TyPtr T)]) = Some e \<and> (\<not> isOptional t \<longrightarrow> e = not_optional_error T)"
    using s1 assms(1) by (auto simp: errorf_def not_optional_error_def split: if_splits)
  ultimately show ?thesis by blast
qed

text \<open>
  Property X1. With the scanner on a fresh row whose first
  column has an optional type, \<open>Scan\<close> with a destination \<open>*T\<close>, for \<open>T\<close> any of
  the types of the type switch but \<open>[16]byte\<close> and \<open>types.Value\<close>, and the pointer
  nil or not, writes nothing: the call returns an error, \<open>Err\<close> returns the same
  error, and every variable of the caller holds what it held. When the item type of
  the column is not optional again, the error is the one that asks for a double
  pointer.
\<close>

theorem scan_single_pointer_optional:
  "on_cell s (optional_type t) k \<and> T \<noteq> T_array16 \<and> T \<noteq> T_Value \<longrightarrow>
     (\<exists>e. run tu [CallScan [Ptr T p], CallRead a, CallErr] s st
            = Ret [OutError (Some e), OutVar (st a), OutError (Some e)]
         \<and> (\<not> isOptional t \<longrightarrow> e = not_optional_error T))"
proof (intro impI, elim conjE)
  assume h: "on_cell s (optional_type t) k" and T: "T \<noteq> T_array16" "T \<noteq> T_Value"
  have e0: "err (s\<lparr>defaultValueForOptional := False\<rparr>) = None"
    "\<not> defaultValueForOptional (s\<lparr>defaultValueForOptional := False\<rparr>)"
    using h by (simp_all add: on_cell_def)
  have o: "isOptional (optional_type t)"
    by (simp add: isOptional_def optional_type_def)
  have "\<exists>e. run tu [CallScan [Ptr T p], CallRead a, CallErr] s st
           = Ret [OutError e, OutVar (st a), OutError e]
         \<and> (\<exists>e'. e = Some e' \<and> (\<not> isOptional t \<longrightarrow> e' = not_optional_error T))"
  proof (rule run_scan_single_optional [OF h o, where ?st2.0 = st
        and P = "\<lambda>e. \<exists>e'. e = Some e' \<and> (\<not> isOptional t \<longrightarrow> e' = not_optional_error T)"])
    fix n x
    from scanOptional_single_pointer [OF e0 T, of tu n t x p st]
    show "\<exists>s2 e. scanOptional tu
        (at_item (s\<lparr>defaultValueForOptional := False\<rparr>) n (optional_type t) (Some x))
        (Ptr T p) st = Ret (s2, st) \<and> err s2 = e
        \<and> (\<exists>e'. e = Some e' \<and> (\<not> isOptional t \<longrightarrow> e' = not_optional_error T))"
      by blast
  qed
  then show "\<exists>e. run tu [CallScan [Ptr T p], CallRead a, CallErr] s st
            = Ret [OutError (Some e), OutVar (st a), OutError (Some e)]
         \<and> (\<not> isOptional t \<longrightarrow> e = not_optional_error T)"
    by blast
qed

theorem scan_single_pointer_optional_witness:
  "on_cell (on_first_row (result_set (optional_type (primitive_type UINT32)) [Value_Uint32Value 5]))
     (optional_type (primitive_type UINT32)) (Value_Uint32Value 5)
   \<and> T_uint32 \<noteq> T_array16 \<and> T_uint32 \<noteq> T_Value
   \<and> (\<exists>e. run tz_ok [CallScan [Ptr T_uint32 (Some 0)], CallRead 0, CallErr]
          (on_first_row (result_set (optional_type (primitive_type UINT32)) [Value_Uint32Value 5]))
          (Map.empty(0 \<mapsto> GUint32 9))
        = Ret [OutError (Some e), OutVar (Some (GUint32 9)), OutError (Some e)]
      \<and> e = not_optional_error T_uint32)"
  using scan_single_pointer_optional
    [of "on_first_row (result_set (optional_type (primitive_type UINT32)) [Value_Uint32Value 5])"
        "primitive_type UINT32" "Value_Uint32Value 5" T_uint32 tz_ok "Some 0" 0
        "Map.empty(0 \<mapsto> GUint32 9)"]
  by (simp add: on_first_row_def on_cell_def not_optional_error_def scanner_defs)

lemma isNull_at_item [simp]:
  "isNull (at_item s n t (Some x)) = Ret (value_oneof x = Some Value_NullFlagValue)"
  by (simp add: isNull_def)

lemma scanOptional_null_ptr_ptr:
  assumes "err s = None" and "\<not> defaultValueForOptional s" and "T \<noteq> T_Value"
    and "value_oneof x = Some Value_NullFlagValue"
  shows "scanOptional tu (at_item s n t (Some x)) (PtrPtr T (Some a)) st
     = Ret (at_item s n t (Some x), st(a \<mapsto> GPtr None))"
  using assms by (simp add: scanOptional_def scanOptional_ptr_def assign_def)

text \<open>
  Property X2. With the scanner on a fresh row whose first column has an optional type
  and whose first cell is null, \<open>Scan\<close> with a destination \<open>**T\<close>, for \<open>T\<close> any
  of the types of the type switch of \<open>scanOptional\<close>, sets the pointer variable to
  nil and records no error.
\<close>

theorem scan_null_sets_nil:
  "on_cell s (optional_type t) Value_NullFlagValue \<and> T \<noteq> T_Value \<longrightarrow>
     run tu [CallScan [PtrPtr T (Some a)], CallRead a, CallErr] s st
       = Ret [OutError None, OutVar (Some (GPtr None)), OutError None]"
proof (intro impI, elim conjE)
  assume h: "on_cell s (optional_type t) Value_NullFlagValue" and T: "T \<noteq> T_Value"
  have e0: "err (s\<lparr>defaultValueForOptional := False\<rparr>) = None"
    "\<not> defaultValueForOptional (s\<lparr>defaultValueForOptional := False\<rparr>)"
    using h by (simp_all add: on_cell_def)
  have o: "isOptional (optional_type t)"
    by (simp add: isOptional_def optional_type_def)
  have "\<exists>e. run tu [CallScan [PtrPtr T (Some a)], CallRead a, CallErr] s st
           = Ret [OutError e, OutVar ((st(a \<mapsto> GPtr None)) a), OutError e] \<and> e = None"
  proof (rule run_scan_single_optional [OF h o, where ?st2.0 = "st(a \<mapsto> GPtr None)"
        and P = "\<lambda>e. e = None"])
    fix n x
    assume "value_oneof x = Some Value_NullFlagValue"
    from scanOptional_null_ptr_ptr [OF e0 T this, of tu n "optional_type t" a st] e0(1)
    show "\<exists>s2 e. scanOptional tu
        (at_item (s\<lparr>defaultValueForOptional := False\<rparr>) n (optional_type t) (Some x))
        (PtrPtr T (Some a)) st = Ret (s2, st(a \<mapsto> GPtr None)) \<and> err s2 = e \<and> e = None"
      by simp
  qed
  then show "run tu [CallScan [PtrPtr T (Some a)], CallRead a, CallErr] s st
       = Ret [OutError None, OutVar (Some (GPtr None)), OutError None]"
    by auto
qed

theorem scan_null_sets_nil_witness:
  "on_cell (on_first_row (result_set (optional_type (primitive_type UINT32)) [Value_NullFlagValue]))
     (optional_type (primitive_type UINT32)) Value_NullFlagValue
   \<and> T_uint32 \<noteq> T_Value
   \<and> run tz_ok [CallScan [PtrPtr T_uint32 (Some 0)], CallRead 0, CallErr]
          (on_first_row (result_set (optional_type (primitive_type UINT32)) [Value_NullFlagValue]))
          (Map.empty(0 \<mapsto> GPtr (Some (GUint32 9))))
        = Ret [OutError None, OutVar (Some (GPtr None)), OutError None]"
  using scan_null_sets_nil
    [of "on_first_row (result_set (optional_type (primitive_type UINT32)) [Value_NullFlagValue])"
        "primitive_type UINT32" T_uint32 tz_ok 0 "Map.empty(0 \<mapsto> GPtr (Some (GUint32 9)))"]
  by (simp add: on_first_row_def on_cell_def scanner_defs)

section \<open>Properties of the scanner: a null cell of a nested optional column\<close>

text \<open>
  Claim C5 on a failing input. The column has type \<open>Optional<Optional<String>>\<close>, the
  cell is null, and \<open>Scan\<close> gets a \<open>**[4]byte\<close> that holds nil. This type is none
  of the cases of \<open>scanOptional\<close>, and its default branch calls \<open>unwrap\<close> before
  \<open>trySetByteArray\<close> asks \<open>isNull\<close>: \<open>unwrapValue\<close> finds the null flag where it
  wants a nested value, records that, and replaces the value under scan by nil, so the
  cell is null no more; the destination gets a pointer to a new zero array and the call
  returns the recorded error. On the same cell of an \<open>Optional<Optional<Uuid>>\<close>
  column the case \<open>**[16]byte\<close> asks \<open>isNull\<close> first: the destination is set to nil
  and no error is recorded.
\<close>

theorem scan_null_nested_optional_byte_array:
  "run tz_ok
     [CallReset (Some (result_set (optional_type (optional_type (primitive_type STRING)))
                         [Value_NullFlagValue])) None,
      CallNextRow, CallScan [PtrPtrByteArray 4 (Some 0)], CallRead 0, CallErr]
     new_scanner (Map.empty(0 \<mapsto> GPtr None))
   = Ret [OutBool True,
          OutError (Some (Errorf ''unexpected value during scan at %q %s: %s; want %s''
            [ArgString ''c'', ArgType (optional_type (optional_type (primitive_type STRING))),
             ArgValueKind (Some Value_NullFlagValue), ArgWant ''*Ydb.Value_NestedValue''])),
          OutVar (Some (GPtr (Some (GArray (zero_bytes 4))))),
          OutError (Some (Errorf ''unexpected value during scan at %q %s: %s; want %s''
            [ArgString ''c'', ArgType (optional_type (optional_type (primitive_type STRING))),
             ArgValueKind (Some Value_NullFlagValue), ArgWant ''*Ydb.Value_NestedValue'']))]
   \<and> run tz_ok
     [CallReset (Some (result_set (optional_type (optional_type (primitive_type UUID)))
                         [Value_NullFlagValue])) None,
      CallNextRow, CallScan [PtrPtr T_array16 (Some 0)], CallRead 0, CallErr]
     new_scanner (Map.empty(0 \<mapsto> GPtr (Some (GArray (zero_bytes 16)))))
   = Ret [OutBool True, OutError None, OutVar (Some (GPtr None)), OutError None]"
  by (simp add: scanner_defs)

section \<open>Properties of the retry engine\<close>



lemma release_counts [simp]:
  "invocations (release p sess tr) = invocations tr"
  "backoffs (release p sess tr) = backoffs tr"
  "gets (release p sess tr) = gets tr"
  by (simp_all add: release_def split: option.splits)




end
